theory Spec2Isabelle
  imports Complex_Main "HOL-Library.Multiset"
begin

section \<open>Conventions of the embedding\<close>

text \<open>
  The development embeds the system-irreducibility search of
  \<^verbatim>\<open>pyphi/new_big_phi/__init__.py\<close> and the tie-resolution framework of
  \<^verbatim>\<open>pyphi/resolve_ties.py\<close>.

  \<^item> Python floats are idealised as real numbers (no rounding, no NaN); the two float
    infinities that the search uses as its initial key are kept as values of their own.
  \<^item> A raised exception is a value \<open>Inl e\<close> of a sum type.
  \<^item> Objects whose identity matters (the analyses that receive a tie list) are
    addresses; the attribute the code mutates lives in an explicit store.
  \<^item> Collaborators outside the embedded files (the subsystem, the partition generator,
    the executor) are parameters.
  \<^item> Numbers that come from a collaborator (the integration results, the intrinsic
    information, the scores of the tie-resolution strategies) are compared as numbers. The
    keys of the minimization, built from the two fields that an analysis wraps in
    \<^verbatim>\<open>PyPhiFloat\<close>, are compared up to a tolerance \<open>eps\<close>.
\<close>

datatype error = ZeroDivisionError | ValueError | NotImplementedError | KeyError

datatype direction = CAUSE | EFFECT

text \<open>\<^verbatim>\<open>Direction.both()\<close>: cause first, as the unpacking in
  \<^verbatim>\<open>system_intrinsic_information\<close> shows.\<close>

definition both :: "direction list" where
  "both = [CAUSE, EFFECT]"

section \<open>Partitions and their normalization factor\<close>

text \<open>
  A candidate partition exposes \<^verbatim>\<open>from_nodes\<close>, \<^verbatim>\<open>to_nodes\<close> and, for some partition
  types, a method \<^verbatim>\<open>normalization_factor()\<close>. The field \<open>own_normalization_factor\<close>
  is \<open>None\<close> when the object has no such attribute and otherwise holds the value the
  method returns.
\<close>

record partition =
  from_nodes :: "nat list"
  to_nodes :: "nat list"
  own_normalization_factor :: "real option"

text \<open>
  \<^verbatim>\<open>
  def normalization_factor(partition):
      if hasattr(partition, "normalization_factor"):
          return partition.normalization_factor()
      return 1 / (len(partition.from_nodes) * len(partition.to_nodes))
  \<close>
  The divisor is an integer; Python raises \<^verbatim>\<open>ZeroDivisionError\<close> when it is zero.
\<close>

definition normalization_factor :: "partition \<Rightarrow> error + real" where
  "normalization_factor p =
     (case own_normalization_factor p of
        Some v \<Rightarrow> Inr v
      | None \<Rightarrow>
          (let d = length (from_nodes p) * length (to_nodes p)
           in if d = 0 then Inl ZeroDivisionError else Inr (1 / real d)))"

section \<open>System state, integration results and analyses\<close>

text \<open>
  \<^verbatim>\<open>system_state[direction]\<close> is the state the intact system specifies in one direction,
  scored by its intrinsic information (computed by the subsystem).
\<close>

record state_specification =
  intrinsic_information :: real
  state :: "nat list"

record system_state_specification =
  cause_specification :: state_specification
  effect_specification :: state_specification

fun getitem :: "system_state_specification \<Rightarrow> direction \<Rightarrow> state_specification" where
  "getitem ss CAUSE = cause_specification ss"
| "getitem ss EFFECT = effect_specification ss"

type_synonym repertoire = "real list"

text \<open>What the subsystem's partition-evaluation primitive returns for one direction.\<close>

record ria =
  ria_phi :: real
  ria_direction :: direction
  ria_partitioned_repertoire :: repertoire

datatype ShortCircuitConditions = NO_VALID_PARTITIONS | NO_CAUSE | NO_EFFECT

text \<open>
  The dataclass \<^verbatim>\<open>SystemIrreducibilityAnalysis\<close>. Its \<^verbatim>\<open>__post_init__\<close> wraps \<open>phi\<close> and
  \<open>normalized_phi\<close> in \<^verbatim>\<open>PyPhiFloat\<close>, which keeps the number and changes how it is
  compared (see the minimization below).
\<close>

record SystemIrreducibilityAnalysis =
  phi :: real
  partition :: "partition option"
  normalized_phi :: real
  cause :: "ria option"
  effect :: "ria option"
  system_state :: "system_state_specification option"
  current_state :: "nat list option"
  node_indices :: "nat list option"
  node_labels :: "string list option"
  reasons :: "ShortCircuitConditions list option"

text \<open>
  \<^verbatim>\<open>NullSystemIrreducibilityAnalysis(**kwargs)\<close> fixes \<open>phi = 0\<close>, \<open>partition = None\<close>,
  \<open>cause = None\<close> and \<open>effect = None\<close>; the remaining fields come from the keyword
  arguments, with the dataclass defaults (\<open>normalized_phi = 0\<close>, otherwise \<open>None\<close>) for
  those not passed.
\<close>

definition NullSystemIrreducibilityAnalysis ::
  "real \<Rightarrow> system_state_specification option \<Rightarrow> nat list option \<Rightarrow> nat list option
     \<Rightarrow> string list option \<Rightarrow> ShortCircuitConditions list option \<Rightarrow> SystemIrreducibilityAnalysis" where
  "NullSystemIrreducibilityAnalysis np ss cs ni nl rs =
     \<lparr>phi = 0, partition = None, normalized_phi = np, cause = None, effect = None,
      system_state = ss, current_state = cs, node_indices = ni, node_labels = nl,
      reasons = rs\<rparr>"

text \<open>
  Modelled from the spec: \<^verbatim>\<open>utils.is_positive\<close> is imported by the module but its
  definition is not among the sources. The spec reads: "\<^verbatim>\<open>SIA.__bool__\<close> is True iff
  \<open>phi > 0\<close>"; the docstring of \<^verbatim>\<open>__bool__\<close> reads "Whether big_phi > 0".
\<close>

definition is_positive :: "real \<Rightarrow> bool" where
  "is_positive x = (0 < x)"

text \<open>\<^verbatim>\<open>SystemIrreducibilityAnalysis.__bool__\<close>, inherited by the null variant.\<close>

definition sia_bool :: "SystemIrreducibilityAnalysis \<Rightarrow> bool" where
  "sia_bool s = is_positive (phi s)"

section \<open>Evaluating one partition\<close>

text \<open>
  \<^verbatim>\<open>conf.fallback\<close>: the first argument that is not \<open>None\<close>.
\<close>

definition fallback :: "'a option \<Rightarrow> 'a \<Rightarrow> 'a" where
  "fallback v d = (case v of None \<Rightarrow> d | Some x \<Rightarrow> x)"

text \<open>
  The subsystem is an external capability. Its fields are the read-only attributes and
  the operations that \<^verbatim>\<open>integration_value\<close>, \<^verbatim>\<open>evaluate_partition\<close> and \<^verbatim>\<open>sia\<close> call;
  the cut subsystem \<^verbatim>\<open>subsystem.apply_cut(partition)\<close> is identified by the partition:
  \<^item> \<open>forward_repertoire_at p d st\<close> is
    \<^verbatim>\<open>cut_subsystem.forward_repertoire(d, nodes, nodes).squeeze()[st]\<close>;
  \<^item> \<open>cut_repertoire p d\<close> is \<^verbatim>\<open>cut_subsystem.repertoire(d, nodes, nodes)\<close>;
  \<^item> \<open>sub_evaluate_partition d p rep dist spec\<close> is \<^verbatim>\<open>subsystem.evaluate_partition\<close>;
  \<^item> \<open>sub_intrinsic_information d dist\<close> is \<^verbatim>\<open>subsystem.intrinsic_information\<close>.
\<close>

record subsystem =
  sub_node_indices :: "nat list"
  sub_node_labels :: "string list"
  sub_proper_state :: "nat list"
  forward_repertoire_at :: "partition \<Rightarrow> direction \<Rightarrow> nat list \<Rightarrow> repertoire"
  cut_repertoire :: "partition \<Rightarrow> direction \<Rightarrow> repertoire"
  sub_evaluate_partition ::
    "direction \<Rightarrow> partition \<Rightarrow> repertoire \<Rightarrow> string \<Rightarrow> state_specification \<Rightarrow> ria"
  sub_intrinsic_information :: "direction \<Rightarrow> string \<Rightarrow> state_specification"

text \<open>
  A tie-resolution strategy is one registered name or a sequence of names
  (\<^verbatim>\<open>isinstance(strategies, str)\<close> tells them apart).
\<close>

datatype strategy = Name string | Names "string list"

text \<open>The configuration options that the embedded functions read.\<close>

record config =
  REPERTOIRE_DISTANCE :: string
  REPERTOIRE_DISTANCE_INFORMATION :: string
  STATE_TIE_RESOLUTION :: strategy
  MIP_TIE_RESOLUTION :: strategy
  PURVIEW_TIE_RESOLUTION :: strategy

definition integration_value ::
  "config \<Rightarrow> direction \<Rightarrow> subsystem \<Rightarrow> partition \<Rightarrow> system_state_specification
     \<Rightarrow> string option \<Rightarrow> ria" where
  "integration_value cfg d sub p ss repertoire_distance =
     (let rd = fallback repertoire_distance (REPERTOIRE_DISTANCE cfg);
          partitioned_repertoire =
            (if rd = ''GENERALIZED_INTRINSIC_DIFFERENCE''
             then forward_repertoire_at sub p d (state (getitem ss d))
             else cut_repertoire sub p d)
      in sub_evaluate_partition sub d p partitioned_repertoire rd (getitem ss d))"

text \<open>
  Python's \<^verbatim>\<open>min\<close> over an iterable: \<^verbatim>\<open>ValueError\<close> on an empty one, otherwise the first
  item that no later item is smaller than.
\<close>

fun py_min :: "real list \<Rightarrow> error + real" where
  "py_min [] = Inl ValueError"
| "py_min (x # xs) = Inr (fold (\<lambda>y m. if y < m then y else m) xs x)"

text \<open>
  \<^verbatim>\<open>
  def evaluate_partition(partition, subsystem, system_state,
                         repertoire_distance=None, directions=None):
      directions = fallback(directions, Direction.both())
      cut_subsystem = subsystem.apply_cut(partition)
      integration = {direction: integration_value(...) for direction in Direction.both()}
      phi = min(integration[direction].phi for direction in directions)
      norm = normalization_factor(partition)
      normalized_phi = phi * norm
      return SystemIrreducibilityAnalysis(phi=phi, normalized_phi=normalized_phi,
          cause=integration[Direction.CAUSE], effect=integration[Direction.EFFECT],
          partition=partition, system_state=system_state,
          current_state=subsystem.proper_state, node_indices=subsystem.node_indices,
          node_labels=subsystem.node_labels)
  \<close>
\<close>

definition evaluate_partition ::
  "config \<Rightarrow> partition \<Rightarrow> subsystem \<Rightarrow> system_state_specification \<Rightarrow> string option
     \<Rightarrow> direction list option \<Rightarrow> error + SystemIrreducibilityAnalysis" where
  "evaluate_partition cfg p sub ss repertoire_distance directions =
     (let dirs = fallback directions both;
          integration = (\<lambda>d. integration_value cfg d sub p ss repertoire_distance)
      in case py_min (map (\<lambda>d. ria_phi (integration d)) dirs) of
           Inl e \<Rightarrow> Inl e
         | Inr ph \<Rightarrow>
             (case normalization_factor p of
                Inl e \<Rightarrow> Inl e
              | Inr nrm \<Rightarrow>
                  Inr \<lparr>phi = ph, partition = Some p, normalized_phi = ph * nrm,
                       cause = Some (integration CAUSE), effect = Some (integration EFFECT),
                       system_state = Some ss, current_state = Some (sub_proper_state sub),
                       node_indices = Some (sub_node_indices sub),
                       node_labels = Some (sub_node_labels sub), reasons = None\<rparr>))"

section \<open>The minimization key\<close>

text \<open>
  \<^verbatim>\<open>
  def sia_minimization_key(sia):
      return (sia.normalized_phi, -sia.phi)
  \<close>
\<close>

definition sia_minimization_key :: "SystemIrreducibilityAnalysis \<Rightarrow> real \<times> real" where
  "sia_minimization_key s = (normalized_phi s, - phi s)"

text \<open>The lexicographic order on pairs of numbers.\<close>

definition lex_less :: "real \<times> real \<Rightarrow> real \<times> real \<Rightarrow> bool" where
  "lex_less a b = (fst a < fst b \<or> (fst a = fst b \<and> snd a < snd b))"

definition lex_le :: "real \<times> real \<Rightarrow> real \<times> real \<Rightarrow> bool" where
  "lex_le a b = (fst a < fst b \<or> (fst a = fst b \<and> snd a \<le> snd b))"

section \<open>Precision-aware comparison\<close>

text \<open>
  \<^verbatim>\<open>
  def phi_eq(x, y):
      return abs(x - y) <= constants.EPSILON
  \<close>
  The constant \<^verbatim>\<open>EPSILON\<close> (module \<^verbatim>\<open>constants\<close>) is the parameter \<open>eps\<close> throughout.
\<close>

definition phi_eq :: "real \<Rightarrow> real \<Rightarrow> real \<Rightarrow> bool" where
  "phi_eq eps x y = (\<bar>x - y\<bar> \<le> eps)"

text \<open>
  A float is a number or one of the two infinities \<^verbatim>\<open>float("inf")\<close> and
  \<^verbatim>\<open>float("-inf")\<close>, which the minimization uses for its initial key.
\<close>

datatype pyfloat = NegInf | Fin real | PosInf

fun float_less :: "pyfloat \<Rightarrow> pyfloat \<Rightarrow> bool" where
  "float_less (Fin x) (Fin y) = (x < y)"
| "float_less (Fin x) PosInf = True"
| "float_less NegInf (Fin y) = True"
| "float_less NegInf PosInf = True"
| "float_less _ _ = False"

text \<open>
  Modelled from the spec: the class \<^verbatim>\<open>PyPhiFloat\<close> (package \<^verbatim>\<open>data_structures\<close>), in which
  \<^verbatim>\<open>__post_init__\<close> wraps \<open>phi\<close> and \<open>normalized_phi\<close>, is not among the sources. The spec
  reads: "Numeric tie comparison uses the same equality semantics as elsewhere in the
  system (fixed absolute tolerance on phi-valued floats) - float bit-equality is not
  assumed." Two numbers are equal when they are within the tolerance of each other, and
  one is less than the other when it is below it and not equal to it. An infinity is
  within the tolerance of no value. With \<open>eps = 0\<close> these are the exact comparisons.
\<close>

fun pf_eq :: "real \<Rightarrow> pyfloat \<Rightarrow> pyfloat \<Rightarrow> bool" where
  "pf_eq eps (Fin x) (Fin y) = phi_eq eps x y"
| "pf_eq eps _ _ = False"

definition pf_lt :: "real \<Rightarrow> pyfloat \<Rightarrow> pyfloat \<Rightarrow> bool" where
  "pf_lt eps x y = (float_less x y \<and> \<not> pf_eq eps x y)"

text \<open>
  Python compares two tuples by the first position at which their items are not equal;
  tuples of the same length that are equal at every position are equal, and neither is
  less.
\<close>

type_synonym key = "pyfloat \<times> pyfloat"

definition key_lt :: "real \<Rightarrow> key \<Rightarrow> key \<Rightarrow> bool" where
  "key_lt eps a b =
     (if \<not> pf_eq eps (fst a) (fst b) then pf_lt eps (fst a) (fst b)
      else if \<not> pf_eq eps (snd a) (snd b) then pf_lt eps (snd a) (snd b)
      else False)"

definition key_eq :: "real \<Rightarrow> key \<Rightarrow> key \<Rightarrow> bool" where
  "key_eq eps a b = (pf_eq eps (fst a) (fst b) \<and> pf_eq eps (snd a) (snd b))"

definition float_key :: "real \<times> real \<Rightarrow> key" where
  "float_key k = (Fin (fst k), Fin (snd k))"

section \<open>The minimization with ties\<close>

text \<open>
  The analyses the executor delivers are objects: an address stands for each, \<open>obj\<close> gives
  the (immutable) dataclass fields at an address, and the store holds the attribute
  \<^verbatim>\<open>_ties\<close>, which is absent until it is set.
  \<^verbatim>\<open>
  @property
  def ties(self):
      try:
          return self._ties
      except AttributeError:
          self._ties = [self]
          return self._ties

  def set_ties(self, ties):
      self._ties = ties
  \<close>
\<close>

type_synonym addr = nat
type_synonym ties_store = "addr \<Rightarrow> addr list option"

definition ties :: "ties_store \<Rightarrow> addr \<Rightarrow> addr list \<times> ties_store" where
  "ties st a = (case st a of Some ts \<Rightarrow> (ts, st) | None \<Rightarrow> ([a], st(a \<mapsto> [a])))"

definition set_ties :: "addr \<Rightarrow> addr list \<Rightarrow> ties_store \<Rightarrow> ties_store" where
  "set_ties a ts st = st(a \<mapsto> ts)"

text \<open>
  \<^verbatim>\<open>
  for candidate_mip_sia in sias:
      candidate_key = sia_minimization_key(candidate_mip_sia)
      if candidate_key < mip_key:
          mip_sia = candidate_mip_sia
          mip_key = candidate_key
          ties = [mip_sia]
      elif candidate_key == mip_key:
          ties.append(candidate_mip_sia)
  \<close>
  The loop state is \<open>(mip_sia, mip_key, ties)\<close>.
\<close>

fun mip_loop ::
  "real \<Rightarrow> (addr \<Rightarrow> SystemIrreducibilityAnalysis) \<Rightarrow> addr list
     \<Rightarrow> addr \<times> key \<times> addr list \<Rightarrow> addr \<times> key \<times> addr list" where
  "mip_loop eps obj [] s = s"
| "mip_loop eps obj (c # cs) (mip_sia, mip_key, tie_list) =
     (let candidate_key = float_key (sia_minimization_key (obj c))
      in if key_lt eps candidate_key mip_key
           then mip_loop eps obj cs (c, candidate_key, [c])
         else if key_eq eps candidate_key mip_key
           then mip_loop eps obj cs (mip_sia, mip_key, tie_list @ [c])
         else mip_loop eps obj cs (mip_sia, mip_key, tie_list))"

text \<open>
  The last part of \<^verbatim>\<open>sia()\<close>, "Find MIP in one pass, keeping track of ties":
  \<^verbatim>\<open>
  mip_sia = default_sia
  mip_key = (float("inf"), float("-inf"))
  ties = [default_sia]
  for candidate_mip_sia in sias: ...
  for tied_mip in ties:
      tied_mip.set_ties(ties)
  return mip_sia
  \<close>
\<close>

definition find_mip ::
  "real \<Rightarrow> (addr \<Rightarrow> SystemIrreducibilityAnalysis) \<Rightarrow> addr \<Rightarrow> addr list \<Rightarrow> ties_store
     \<Rightarrow> addr \<times> ties_store" where
  "find_mip eps obj default_sia sias st =
     (case mip_loop eps obj sias (default_sia, (PosInf, NegInf), [default_sia]) of
        (mip_sia, mip_key, tie_list) \<Rightarrow>
          (mip_sia, fold (\<lambda>tied_mip. set_ties tied_mip tie_list) tie_list st))"

text \<open>The tie list an analysis reports after the search.\<close>

definition ties_of :: "ties_store \<Rightarrow> addr \<Rightarrow> addr list" where
  "ties_of st a = fst (ties st a)"

text \<open>
  The keys of a sequence of analyses are separated when the tolerance never makes two
  different numbers equal: any two \<open>normalized_phi\<close> values, and any two \<open>phi\<close> values,
  that lie within \<open>eps\<close> of each other are the same number. This always holds for
  \<open>eps = 0\<close>.
\<close>

definition separated ::
  "real \<Rightarrow> (addr \<Rightarrow> SystemIrreducibilityAnalysis) \<Rightarrow> addr list \<Rightarrow> bool" where
  "separated eps obj sias =
     (\<forall>a \<in> set sias. \<forall>b \<in> set sias.
        (\<bar>normalized_phi (obj a) - normalized_phi (obj b)\<bar> \<le> eps
           \<longrightarrow> normalized_phi (obj a) = normalized_phi (obj b))
      \<and> (\<bar>phi (obj a) - phi (obj b)\<bar> \<le> eps \<longrightarrow> phi (obj a) = phi (obj b)))"

definition min_key :: "(addr \<Rightarrow> SystemIrreducibilityAnalysis) \<Rightarrow> addr \<Rightarrow> real \<times> real" where
  "min_key obj a = sia_minimization_key (obj a)"

text \<open>
  An analysis as \<^verbatim>\<open>evaluate_partition\<close> returns it for a non-negative \<open>phi\<close> and a positive
  normalization factor: \<open>normalized_phi\<close> is \<open>phi\<close> times the factor, so it is zero when
  \<open>phi\<close> is and positive otherwise.
\<close>

definition scored_by_positive_factor :: "SystemIrreducibilityAnalysis \<Rightarrow> bool" where
  "scored_by_positive_factor s =
     (0 \<le> phi s \<and> (if phi s = 0 then normalized_phi s = 0 else 0 < normalized_phi s))"

section \<open>The search\<close>

text \<open>
  \<^verbatim>\<open>
  def system_intrinsic_information(subsystem, repertoire_distance=None):
      repertoire_distance = fallback(repertoire_distance,
                                     config.REPERTOIRE_DISTANCE_INFORMATION)
      cause, effect = [subsystem.intrinsic_information(direction, ...)
                       for direction in Direction.both()]
      return SystemStateSpecification(cause=cause, effect=effect)
  \<close>
\<close>

definition system_intrinsic_information ::
  "config \<Rightarrow> subsystem \<Rightarrow> string option \<Rightarrow> system_state_specification" where
  "system_intrinsic_information cfg sub repertoire_distance =
     (let rd = fallback repertoire_distance (REPERTOIRE_DISTANCE_INFORMATION cfg)
      in \<lparr>cause_specification = sub_intrinsic_information sub CAUSE rd,
          effect_specification = sub_intrinsic_information sub EFFECT rd\<rparr>)"

text \<open>
  \<^verbatim>\<open>
  def _has_no_cause_or_effect(system_state):
      reasons = []
      for direction, reason in zip(Direction.both(),
              [ShortCircuitConditions.NO_CAUSE, ShortCircuitConditions.NO_EFFECT]):
          if system_state[direction].intrinsic_information <= 0:
              reasons.append(reason)
      return reasons
  \<close>
\<close>

definition has_no_cause_or_effect ::
  "system_state_specification \<Rightarrow> ShortCircuitConditions list" where
  "has_no_cause_or_effect ss =
     concat (map (\<lambda>(d, reason).
                    if intrinsic_information (getitem ss d) \<le> 0 then [reason] else [])
                 (zip both [NO_CAUSE, NO_EFFECT]))"

text \<open>
  Modelled from the spec: \<^verbatim>\<open>utils.is_falsy\<close>, the short-circuit test handed to the executor,
  is not among the sources. The spec reads: "if a worker ever reports a falsy (zero-phi)
  outcome, the search may terminate early".
\<close>

definition is_falsy :: "SystemIrreducibilityAnalysis \<Rightarrow> bool" where
  "is_falsy s = (\<not> sia_bool s)"

text \<open>
  Modelled from the spec: the parallel executor \<^verbatim>\<open>MapReduce\<close> is not among the sources.
  The spec reads: "\<^verbatim>\<open>map_reduce(fn, inputs, map_kwargs, shortcircuit_func, ...)\<close> gives an
  iterable of results, supporting early termination when \<^verbatim>\<open>shortcircuit_func\<close> returns
  true for a result", and "ties are still tracked across whatever results are available
  at short-circuit time". Here the inputs are evaluated in their order, an exception of
  \<open>fn\<close> ends the run, and the run stops after the first result that short-circuits. Each
  result is paired with the input it was computed from, which records what was evaluated.
\<close>

fun map_reduce :: "('a \<Rightarrow> error + 'b) \<Rightarrow> ('b \<Rightarrow> bool) \<Rightarrow> 'a list \<Rightarrow> error + ('a \<times> 'b) list" where
  "map_reduce f shortcircuit_func [] = Inr []"
| "map_reduce f shortcircuit_func (x # xs) =
     (case f x of
        Inl e \<Rightarrow> Inl e
      | Inr r \<Rightarrow>
          if shortcircuit_func r then Inr [(x, r)]
          else (case map_reduce f shortcircuit_func xs of
                  Inl e \<Rightarrow> Inl e
                | Inr rs \<Rightarrow> Inr ((x, r) # rs)))"

text \<open>
  What a call of \<^verbatim>\<open>sia()\<close> leaves behind: the analysis it returns, the tie list that
  analysis reports, and the partitions that were handed to \<^verbatim>\<open>evaluate_partition\<close>.
\<close>

record sia_outcome =
  returned :: SystemIrreducibilityAnalysis
  returned_ties :: "SystemIrreducibilityAnalysis list"
  evaluated :: "partition list"

text \<open>
  \<^verbatim>\<open>
  def sia(subsystem, repertoire_distance=None, directions=None,
          partition_scheme=None, partitions=None, **kwargs):
      ...
      system_state = system_intrinsic_information(subsystem)

      def _null_sia(**kwargs):
          return NullSystemIrreducibilityAnalysis(system_state=system_state,
              node_indices=subsystem.node_indices, node_labels=subsystem.node_labels,
              **kwargs)

      shortcircuit_reasons = _has_no_cause_or_effect(system_state)
      if shortcircuit_reasons:
          return _null_sia(reasons=shortcircuit_reasons)

      default_sia = _null_sia(reasons=[ShortCircuitConditions.NO_VALID_PARTITIONS])
      sias = MapReduce(evaluate_partition, partitions, ...,
                       shortcircuit_func=utils.is_falsy, ...).run()
      # Find MIP in one pass, keeping track of ties
      ...
      return mip_sia
  \<close>
  The argument \<open>partitions\<close> is the candidate sequence after the \<^verbatim>\<open>fallback\<close> to the
  partition generator, which is an external collaborator. The default analysis lives at
  address \<open>0\<close> and the \<open>i\<close>-th delivered result at address \<open>i + 1\<close>.
\<close>

definition sia ::
  "real \<Rightarrow> config \<Rightarrow> subsystem \<Rightarrow> string option \<Rightarrow> direction list option \<Rightarrow> partition list
     \<Rightarrow> error + sia_outcome" where
  "sia eps cfg sub repertoire_distance directions partitions =
     (let system_state = system_intrinsic_information cfg sub None;
          null_sia = (\<lambda>rs. NullSystemIrreducibilityAnalysis 0 (Some system_state) None
                              (Some (sub_node_indices sub)) (Some (sub_node_labels sub)) (Some rs));
          shortcircuit_reasons = has_no_cause_or_effect system_state
      in if shortcircuit_reasons \<noteq> []
         then Inr \<lparr>returned = null_sia shortcircuit_reasons,
                   returned_ties = [null_sia shortcircuit_reasons],
                   evaluated = []\<rparr>
         else
           (let default_sia = null_sia [NO_VALID_PARTITIONS]
            in case map_reduce
                      (\<lambda>p. evaluate_partition cfg p sub system_state repertoire_distance directions)
                      is_falsy partitions of
                 Inl e \<Rightarrow> Inl e
               | Inr rs \<Rightarrow>
                   (let obj = (\<lambda>a. if a = 0 then default_sia else snd (rs ! (a - 1)));
                        found = find_mip eps obj 0 [1 ..< Suc (length rs)] Map.empty
                    in Inr \<lparr>returned = obj (fst found),
                             returned_ties = map obj (ties_of (snd found) (fst found)),
                             evaluated = map fst rs\<rparr>)))"

section \<open>Example inputs\<close>

text \<open>
  A subsystem whose cause-side integration is always \<open>3\<close> and whose effect-side
  integration is the number of \<^verbatim>\<open>to_nodes\<close> of the cut minus one; its intrinsic information
  is given per direction.
\<close>

definition example_subsystem :: "real \<Rightarrow> real \<Rightarrow> subsystem" where
  "example_subsystem ii_cause ii_effect =
     \<lparr>sub_node_indices = [0, 1, 2],
      sub_node_labels = [''A'', ''B'', ''C''],
      sub_proper_state = [1, 0, 0],
      forward_repertoire_at = (\<lambda>p d st. [1]),
      cut_repertoire = (\<lambda>p d. [1 / 2, 1 / 2]),
      sub_evaluate_partition =
        (\<lambda>d p rep dist spec.
           \<lparr>ria_phi = (if d = CAUSE then 3 else real (length (to_nodes p)) - 1),
            ria_direction = d, ria_partitioned_repertoire = rep\<rparr>),
      sub_intrinsic_information =
        (\<lambda>d dist. \<lparr>intrinsic_information = (if d = CAUSE then ii_cause else ii_effect),
                    state = [1, 0, 0]\<rparr>)\<rparr>"

definition example_config :: config where
  "example_config = \<lparr>REPERTOIRE_DISTANCE = ''GENERALIZED_INTRINSIC_DIFFERENCE'',
                      REPERTOIRE_DISTANCE_INFORMATION = ''GENERALIZED_INTRINSIC_DIFFERENCE'',
                      STATE_TIE_RESOLUTION = Name ''PHI'',
                      MIP_TIE_RESOLUTION = Names [''NORMALIZED_PHI'', ''NEGATIVE_PHI''],
                      PURVIEW_TIE_RESOLUTION = Name ''PHI''\<rparr>"

definition example_cut :: "nat list \<Rightarrow> nat list \<Rightarrow> partition" where
  "example_cut f t = \<lparr>from_nodes = f, to_nodes = t, own_normalization_factor = None\<rparr>"

definition example_eps :: real where
  "example_eps = 1 / 10 ^ 13"

text \<open>An analysis with the given \<open>phi\<close> and \<open>normalized_phi\<close>.\<close>

definition candidate :: "real \<Rightarrow> real \<Rightarrow> SystemIrreducibilityAnalysis" where
  "candidate ph nph =
     \<lparr>phi = ph,
      partition = Some \<lparr>from_nodes = [0], to_nodes = [1], own_normalization_factor = Some (nph / ph)\<rparr>,
      normalized_phi = nph, cause = None, effect = None, system_state = None,
      current_state = None, node_indices = None, node_labels = None, reasons = None\<rparr>"

text \<open>
  Four results whose \<open>normalized_phi\<close> values lie closer together than the tolerance
  \<open>example_eps\<close>, all with \<open>phi = 2\<close>.
\<close>

definition near_tied :: "addr \<Rightarrow> SystemIrreducibilityAnalysis" where
  "near_tied a =
     (if a = 1 then candidate 2 (1 + 12 / 10 ^ 14)
      else if a = 2 then candidate 2 (1 + 6 / 10 ^ 14)
      else if a = 3 then candidate 2 1
      else if a = 4 then candidate 2 (1 - 3 / 10 ^ 14)
      else NullSystemIrreducibilityAnalysis 0 None None None None (Some [NO_VALID_PARTITIONS]))"

text \<open>Five results whose keys are equal or far apart.\<close>

definition well_separated :: "addr \<Rightarrow> SystemIrreducibilityAnalysis" where
  "well_separated a =
     (if a = 1 then candidate 2 1
      else if a = 2 then candidate 1 (1 / 2)
      else if a = 3 then candidate 1 (1 / 2)
      else if a = 4 then candidate 3 (1 / 2)
      else if a = 5 then candidate 3 (1 / 2)
      else NullSystemIrreducibilityAnalysis 0 None None None None (Some [NO_VALID_PARTITIONS]))"

text \<open>
  A subsystem of eight nodes whose integration is \<open>1e-12\<close> in both directions under a cut
  with four \<^verbatim>\<open>to_nodes\<close> and zero under every other cut.
\<close>

definition tiny_phi_subsystem :: subsystem where
  "tiny_phi_subsystem =
     \<lparr>sub_node_indices = [0, 1, 2, 3, 4, 5, 6, 7],
      sub_node_labels = [''A'', ''B'', ''C'', ''D'', ''E'', ''F'', ''G'', ''H''],
      sub_proper_state = [1, 0, 0, 0, 0, 0, 0, 0],
      forward_repertoire_at = (\<lambda>p d st. [1]),
      cut_repertoire = (\<lambda>p d. [1 / 2, 1 / 2]),
      sub_evaluate_partition =
        (\<lambda>d p rep dist spec.
           \<lparr>ria_phi = (if length (to_nodes p) = 4 then 1 / 10 ^ 12 else 0),
            ria_direction = d, ria_partitioned_repertoire = rep\<rparr>),
      sub_intrinsic_information =
        (\<lambda>d dist. \<lparr>intrinsic_information = 1, state = [1, 0, 0, 0, 0, 0, 0, 0]\<rparr>)\<rparr>"

section \<open>Tie resolution\<close>

text \<open>
  The candidates of \<^verbatim>\<open>resolve_ties\<close> (states, mechanism partitions, purviews) are objects
  with the attributes the registered strategies read: \<^verbatim>\<open>phi\<close>, \<^verbatim>\<open>normalized_phi\<close>,
  \<^verbatim>\<open>purview\<close>, and for \<^verbatim>\<open>MAX_INFORMATIVENESS\<close> the repertoires. The field \<open>m_specified_pmi\<close>
  is \<open>None\<close> when \<^verbatim>\<open>m.partitioned_repertoire\<close> is \<open>None\<close> and otherwise holds
  \<^verbatim>\<open>pointwise_mutual_information_vector(m.repertoire, m.partitioned_repertoire)[m.specified_index]\<close>,
  which the module \<^verbatim>\<open>metrics\<close> computes.
\<close>

record phi_object =
  m_phi :: real
  m_normalized_phi :: real
  m_purview :: "nat list"
  m_specified_pmi :: "real list option"

fun py_max :: "real list \<Rightarrow> error + real" where
  "py_max [] = Inl ValueError"
| "py_max (x # xs) = Inr (fold (\<lambda>y m. if m < y then y else m) xs x)"

definition max_informativeness :: "phi_object \<Rightarrow> error + real" where
  "max_informativeness m =
     (case m_specified_pmi m of Some v \<Rightarrow> py_max v | None \<Rightarrow> Inr 0)"

text \<open>
  The registry \<^verbatim>\<open>phi_object_tie_resolution_strategies\<close> with the eight functions the
  module registers. The function registered as \<^verbatim>\<open>"NONE"\<close> raises
  \<^verbatim>\<open>NotImplementedError\<close> for every argument.
\<close>

type_synonym strategy_function = "phi_object \<Rightarrow> error + real"

definition phi_object_tie_resolution_strategies :: "string \<Rightarrow> strategy_function option" where
  "phi_object_tie_resolution_strategies name =
     (if name = ''MAX_INFORMATIVENESS'' then Some max_informativeness
      else if name = ''PURVIEW_SIZE'' then Some (\<lambda>m. Inr (real (length (m_purview m))))
      else if name = ''NEGATIVE_PURVIEW_SIZE'' then Some (\<lambda>m. Inr (- real (length (m_purview m))))
      else if name = ''PHI'' then Some (\<lambda>m. Inr (m_phi m))
      else if name = ''NEGATIVE_PHI'' then Some (\<lambda>m. Inr (- m_phi m))
      else if name = ''NORMALIZED_PHI'' then Some (\<lambda>m. Inr (m_normalized_phi m))
      else if name = ''NEGATIVE_NORMALIZED_PHI'' then Some (\<lambda>m. Inr (- m_normalized_phi m))
      else if name = ''NONE'' then Some (\<lambda>m. Inl NotImplementedError)
      else None)"

text \<open>
  \<^verbatim>\<open>
  def _strategies_to_key_function(strategies):
      if isinstance(strategies, str):
          strategies = [strategies]
      return lambda obj: tuple(
          phi_object_tie_resolution_strategies[s](obj) for s in strategies)
  \<close>
  The registry is a parameter \<open>reg\<close>; looking up a name that is not registered raises
  \<^verbatim>\<open>KeyError\<close>. The scores are computed in the order of the names, and the first
  exception ends the computation.
\<close>

fun scores :: "(string \<Rightarrow> strategy_function option) \<Rightarrow> string list \<Rightarrow> phi_object \<Rightarrow> error + real list" where
  "scores reg [] obj = Inr []"
| "scores reg (s # ss) obj =
     (case reg s of
        None \<Rightarrow> Inl KeyError
      | Some f \<Rightarrow>
          (case f obj of
             Inl e \<Rightarrow> Inl e
           | Inr v \<Rightarrow> (case scores reg ss obj of Inl e \<Rightarrow> Inl e | Inr vs \<Rightarrow> Inr (v # vs))))"

definition strategies_to_key_function ::
  "(string \<Rightarrow> strategy_function option) \<Rightarrow> strategy \<Rightarrow> phi_object \<Rightarrow> error + real list" where
  "strategies_to_key_function reg strategies obj =
     scores reg (case strategies of Name s \<Rightarrow> [s] | Names ss \<Rightarrow> ss) obj"

text \<open>\<^verbatim>\<open>map(sort_key, key_args)\<close>, consumed from the first object on.\<close>

fun map_keys :: "(phi_object \<Rightarrow> error + real list) \<Rightarrow> phi_object list \<Rightarrow> error + real list list" where
  "map_keys sortkey [] = Inr []"
| "map_keys sortkey (x # xs) =
     (case sortkey x of
        Inl e \<Rightarrow> Inl e
      | Inr k \<Rightarrow> (case map_keys sortkey xs of Inl e \<Rightarrow> Inl e | Inr ks \<Rightarrow> Inr (k # ks)))"

text \<open>Python's order on tuples of numbers.\<close>

fun tuple_lt :: "real list \<Rightarrow> real list \<Rightarrow> bool" where
  "tuple_lt [] [] = False"
| "tuple_lt [] (y # ys) = True"
| "tuple_lt (x # xs) [] = False"
| "tuple_lt (x # xs) (y # ys) = (if x = y then tuple_lt xs ys else x < y)"

text \<open>
  Modelled from the spec: \<^verbatim>\<open>utils.iter_with_default\<close>, \<^verbatim>\<open>utils.all_maxima\<close>,
  \<^verbatim>\<open>utils.all_minima\<close> and \<^verbatim>\<open>utils.NO_DEFAULT\<close> are imported by \<^verbatim>\<open>resolve_ties\<close> but their
  definitions are not among the sources. The spec reads: "return the objects unchanged (or
  a supplied default if the collection is empty)", and "both must return every candidate
  whose key is extremal, not merely one, and must return a caller-supplied default (a
  single wrapped-into-a-collection value) when the input is empty". An absent default
  (\<^verbatim>\<open>NO_DEFAULT\<close>) is \<open>None\<close>. The elements that \<^verbatim>\<open>resolve\<close> hands to the reduction are
  pairs of a key and a candidate, and the extremum is taken over the key.
\<close>

definition iter_with_default :: "'a list \<Rightarrow> 'a option \<Rightarrow> 'a list" where
  "iter_with_default seq dflt =
     (if seq = [] then (case dflt of None \<Rightarrow> [] | Some d \<Rightarrow> [d]) else seq)"

type_synonym 'a reduction =
  "(real list \<times> 'a) list \<Rightarrow> (real list \<times> 'a) option \<Rightarrow> (real list \<times> 'a) list"

definition all_maxima :: "'a reduction" where
  "all_maxima seq dflt =
     (if seq = [] then (case dflt of None \<Rightarrow> [] | Some d \<Rightarrow> [d])
      else filter (\<lambda>e. \<forall>e' \<in> set seq. \<not> tuple_lt (fst e) (fst e')) seq)"

definition all_minima :: "'a reduction" where
  "all_minima seq dflt =
     (if seq = [] then (case dflt of None \<Rightarrow> [] | Some d \<Rightarrow> [d])
      else filter (\<lambda>e. \<forall>e' \<in> set seq. \<not> tuple_lt (fst e') (fst e)) seq)"

text \<open>
  \<^verbatim>\<open>
  def resolve(objects, strategy, operation=all_maxima, default=NO_DEFAULT):
      if strategy == "NONE":
          yield from iter_with_default(objects, default=default)
          return
      sort_key = _strategies_to_key_function(strategy)
      key_args, objects = tee(objects)
      keys = map(sort_key, key_args)
      if default is not NO_DEFAULT:
          default = (sort_key(default), default)
      ties = operation(zip(keys, objects), default=default)
      for _, obj in ties:
          yield obj
  \<close>
  The result is the list of objects the generator yields, or the exception it raises.
\<close>

definition resolve ::
  "(string \<Rightarrow> strategy_function option) \<Rightarrow> phi_object list \<Rightarrow> strategy
     \<Rightarrow> phi_object reduction \<Rightarrow> phi_object option \<Rightarrow> error + phi_object list" where
  "resolve reg objects strategy operation dflt =
     (if strategy = Name ''NONE'' then Inr (iter_with_default objects dflt)
      else
        (let sortkey = strategies_to_key_function reg strategy
         in case (case dflt of
                    None \<Rightarrow> Inr None
                  | Some d \<Rightarrow> (case sortkey d of Inl e \<Rightarrow> Inl e | Inr k \<Rightarrow> Inr (Some (k, d)))) of
              Inl e \<Rightarrow> Inl e
            | Inr keyed_default \<Rightarrow>
                (case map_keys sortkey objects of
                   Inl e \<Rightarrow> Inl e
                 | Inr keys \<Rightarrow> Inr (map snd (operation (zip keys objects) keyed_default)))))"

text \<open>
  The per-domain resolvers:
  \<^verbatim>\<open>
  def states(rias, strategy=None, **kwargs):
      strategy = fallback(strategy, config.STATE_TIE_RESOLUTION)
      return resolve(rias, strategy, **kwargs)

  def partitions(mips, strategy=None, **kwargs):
      strategy = fallback(strategy, config.MIP_TIE_RESOLUTION)
      return resolve(mips, strategy, operation=all_minima, **kwargs)

  def purviews(mice, strategy=None, **kwargs):
      strategy = fallback(strategy, config.PURVIEW_TIE_RESOLUTION)
      yield from resolve(mice, strategy, **kwargs)
  \<close>
\<close>

definition states ::
  "config \<Rightarrow> (string \<Rightarrow> strategy_function option) \<Rightarrow> phi_object list \<Rightarrow> strategy option
     \<Rightarrow> phi_object option \<Rightarrow> error + phi_object list" where
  "states cfg reg rias strategy dflt =
     resolve reg rias (fallback strategy (STATE_TIE_RESOLUTION cfg)) all_maxima dflt"

definition partitions ::
  "config \<Rightarrow> (string \<Rightarrow> strategy_function option) \<Rightarrow> phi_object list \<Rightarrow> strategy option
     \<Rightarrow> phi_object option \<Rightarrow> error + phi_object list" where
  "partitions cfg reg mips strategy dflt =
     resolve reg mips (fallback strategy (MIP_TIE_RESOLUTION cfg)) all_minima dflt"

definition purviews ::
  "config \<Rightarrow> (string \<Rightarrow> strategy_function option) \<Rightarrow> phi_object list \<Rightarrow> strategy option
     \<Rightarrow> phi_object option \<Rightarrow> error + phi_object list" where
  "purviews cfg reg mice strategy dflt =
     resolve reg mice (fallback strategy (PURVIEW_TIE_RESOLUTION cfg)) all_maxima dflt"

text \<open>The two candidates of the spec's example: the same \<open>phi\<close>, purviews of size 2 and 3.\<close>

definition candidate_A :: phi_object where
  "candidate_A = \<lparr>m_phi = 1, m_normalized_phi = 1 / 2, m_purview = [0, 1], m_specified_pmi = None\<rparr>"

definition candidate_B :: phi_object where
  "candidate_B = \<lparr>m_phi = 1, m_normalized_phi = 1 / 3, m_purview = [0, 1, 2], m_specified_pmi = None\<rparr>"

text \<open>The scores of the strategies \<^verbatim>\<open>"PHI"\<close> and \<^verbatim>\<open>"PURVIEW_SIZE"\<close>, by name.\<close>

definition example_score :: "string \<Rightarrow> phi_object \<Rightarrow> real" where
  "example_score n m = (if n = ''PHI'' then m_phi m else real (length (m_purview m)))"

section \<open>Composition\<close>

text \<open>
  A distinction carries its \<open>phi\<close> and the cause and effect states it specifies. The
  collection classes (\<^verbatim>\<open>CauseEffectStructure\<close>, \<^verbatim>\<open>Relations\<close>) and the functions computing
  them are external: \<open>is_congruent\<close> decides which distinctions
  \<^verbatim>\<open>distinctions.resolve_congruence(system_state)\<close> keeps, \<open>compute_ces\<close> is \<^verbatim>\<open>compute.ces\<close>,
  \<open>compute_relations\<close> is \<^verbatim>\<open>relations.relations\<close>, and the field \<open>sum_phi\<close> of a relation set
  is what its method \<^verbatim>\<open>sum_phi()\<close> returns.
\<close>

record distinction =
  d_mechanism :: "nat list"
  d_phi :: real
  d_cause_state :: "nat list"
  d_effect_state :: "nat list"

record relations =
  sum_phi :: real
  num_relations :: nat

record collaborators =
  is_congruent :: "system_state_specification option \<Rightarrow> distinction \<Rightarrow> bool"
  compute_ces :: "subsystem \<Rightarrow> distinction list"
  compute_relations :: "distinction list \<Rightarrow> relations"

text \<open>
  Modelled from the spec: \<^verbatim>\<open>CauseEffectStructure.resolve_congruence\<close> is not among the
  sources. The spec reads: "filter distinctions for congruence with the winning SIA's
  system state before use"; the call site is commented "Filter out incongruent
  distinctions".
\<close>

definition resolve_congruence ::
  "collaborators \<Rightarrow> distinction list \<Rightarrow> system_state_specification option \<Rightarrow> distinction list" where
  "resolve_congruence ext ds ss = filter (is_congruent ext ss) ds"

record PhiStructure =
  ps_sia :: SystemIrreducibilityAnalysis
  ps_distinctions :: "distinction list"
  ps_relations :: relations

text \<open>
  \<^verbatim>\<open>
  @property
  def sum_phi_relations(self):
      return self.relations.sum_phi()

  @property
  def sum_phi_distinctions(self):
      try: return self._sum_phi_distinctions
      except AttributeError:
          self._sum_phi_distinctions = sum(self.distinctions.phis)
          return self._sum_phi_distinctions

  @property
  def big_phi(self):
      try: return self._big_phi
      except AttributeError:
          self._big_phi = self.sum_phi_distinctions + self.sum_phi_relations
          return self._big_phi
  \<close>
  The cached attributes hold the value of the first computation; the fields they are
  computed from are never reassigned, so every read gives the value computed here.
\<close>

definition sum_phi_relations :: "PhiStructure \<Rightarrow> real" where
  "sum_phi_relations ps = sum_phi (ps_relations ps)"

definition sum_phi_distinctions :: "PhiStructure \<Rightarrow> real" where
  "sum_phi_distinctions ps = sum_list (map d_phi (ps_distinctions ps))"

definition big_phi :: "PhiStructure \<Rightarrow> real" where
  "big_phi ps = sum_phi_distinctions ps + sum_phi_relations ps"

text \<open>
  \<^verbatim>\<open>
  def phi_structure(subsystem, parallel=True, sia=None, distinctions=None,
                    relations=None, ...):
      if sia is None:
          sia = _sia(subsystem, **sia_kwargs)
      if distinctions is None:
          distinctions = compute.ces(subsystem, **ces_kwargs)
      # Filter out incongruent distinctions
      distinctions = distinctions.resolve_congruence(sia.system_state)
      if relations is None:
          relations = compute_relations(distinctions, **relations_kwargs)
      return PhiStructure(sia=sia, distinctions=distinctions, relations=relations)
  \<close>
  When the analysis is not supplied it is searched for among \<open>candidate_partitions\<close> with
  the configured defaults.
\<close>

definition phi_structure ::
  "real \<Rightarrow> config \<Rightarrow> collaborators \<Rightarrow> subsystem \<Rightarrow> partition list
     \<Rightarrow> SystemIrreducibilityAnalysis option \<Rightarrow> distinction list option \<Rightarrow> relations option
     \<Rightarrow> error + PhiStructure" where
  "phi_structure eps cfg ext sub candidate_partitions sia_arg distinctions_arg relations_arg =
     (case (case sia_arg of
              Some s \<Rightarrow> Inr s
            | None \<Rightarrow>
                (case sia eps cfg sub None None candidate_partitions of
                   Inl e \<Rightarrow> Inl e
                 | Inr out \<Rightarrow> Inr (returned out))) of
        Inl e \<Rightarrow> Inl e
      | Inr s \<Rightarrow>
          (let distinctions =
                 (case distinctions_arg of None \<Rightarrow> compute_ces ext sub | Some ds \<Rightarrow> ds);
               distinctions = resolve_congruence ext distinctions (system_state s);
               relations =
                 (case relations_arg of None \<Rightarrow> compute_relations ext distinctions | Some r \<Rightarrow> r)
           in Inr \<lparr>ps_sia = s, ps_distinctions = distinctions, ps_relations = relations\<rparr>))"

text \<open>
  Example: a system state, a collaborator for which a distinction is congruent when it
  specifies the system's cause and effect states, and two distinctions, the second of
  which specifies another cause state.
\<close>

definition example_state :: system_state_specification where
  "example_state = \<lparr>cause_specification = \<lparr>intrinsic_information = 1, state = [1, 0, 0]\<rparr>,
                     effect_specification = \<lparr>intrinsic_information = 1, state = [0, 1, 0]\<rparr>\<rparr>"

definition example_collaborators :: collaborators where
  "example_collaborators =
     \<lparr>is_congruent =
        (\<lambda>ss d. case ss of
                  None \<Rightarrow> True
                | Some spec \<Rightarrow> d_cause_state d = state (cause_specification spec)
                              \<and> d_effect_state d = state (effect_specification spec)),
      compute_ces = (\<lambda>sub. []),
      compute_relations = (\<lambda>ds. \<lparr>sum_phi = 0, num_relations = 0\<rparr>)\<rparr>"

definition congruent_distinction :: distinction where
  "congruent_distinction =
     \<lparr>d_mechanism = [0], d_phi = 1, d_cause_state = [1, 0, 0], d_effect_state = [0, 1, 0]\<rparr>"

definition incongruent_distinction :: distinction where
  "incongruent_distinction =
     \<lparr>d_mechanism = [1], d_phi = 2, d_cause_state = [0, 0, 0], d_effect_state = [0, 1, 0]\<rparr>"

definition example_sia :: SystemIrreducibilityAnalysis where
  "example_sia = (candidate 3 (3 / 2))\<lparr>system_state := Some example_state\<rparr>"

section \<open>Properties\<close>

subsection \<open>The normalization factor\<close>

text \<open>
  C10. For a partition without a \<^verbatim>\<open>normalization_factor\<close> method of its own, the default
  factor \<open>1 / (len(from_nodes) * len(to_nodes))\<close> is defined, and then positive, exactly
  when both sides are non-empty; with an empty \<^verbatim>\<open>from_nodes\<close> or \<^verbatim>\<open>to_nodes\<close> the call
  raises a division-by-zero error.
\<close>

theorem normalization_factor_default:
  assumes "own_normalization_factor p = None"
  shows "(from_nodes p \<noteq> [] \<and> to_nodes p \<noteq> [] \<longrightarrow>
            normalization_factor p
              = Inr (1 / real (length (from_nodes p) * length (to_nodes p)))
            \<and> 0 < 1 / real (length (from_nodes p) * length (to_nodes p)))
       \<and> (from_nodes p = [] \<or> to_nodes p = [] \<longrightarrow>
            normalization_factor p = Inl ZeroDivisionError)"
  using assms by (auto simp: normalization_factor_def Let_def)

theorem normalization_factor_default_witness:
  "normalization_factor \<lparr>from_nodes = [0], to_nodes = [1, 2], own_normalization_factor = None\<rparr>
     = Inr (1 / 2)
   \<and> normalization_factor \<lparr>from_nodes = [], to_nodes = [1, 2], own_normalization_factor = None\<rparr>
     = Inl ZeroDivisionError"
  using normalization_factor_default
          [of "\<lparr>from_nodes = [0], to_nodes = [1, 2], own_normalization_factor = None\<rparr>"]
        normalization_factor_default
          [of "\<lparr>from_nodes = [], to_nodes = [1, 2], own_normalization_factor = None\<rparr>"]
  by simp

subsection \<open>Evaluating one partition\<close>

lemma py_min_Min: "xs \<noteq> [] \<Longrightarrow> py_min xs = Inr (Min (set xs))"
proof (cases xs)
  case Nil
  assume "xs \<noteq> []"
  with Nil show ?thesis by simp
next
  case (Cons x ys)
  have "(\<lambda>(y::real) m. if y < m then y else m) = min"
    by (intro ext) (simp add: min_def)
  moreover have "Min (set (x # ys)) = fold min ys x"
    by (rule Min.set_eq_fold)
  ultimately show ?thesis
    using Cons by simp
qed

text \<open>
  C4. \<^verbatim>\<open>evaluate_partition\<close> returns an analysis whose \<open>phi\<close> is the minimum of the
  per-direction phi values over the requested directions (both when none are given), whose
  \<open>normalized_phi\<close> is \<open>phi\<close> times the partition's normalization factor (the default
  \<open>1 / (|from_nodes| * |to_nodes|)\<close> when the partition has no method of its own), and which
  carries the results of both directions. The minimum and the factor have to exist: some
  direction is requested and \<^verbatim>\<open>normalization_factor\<close> returns.
\<close>

theorem evaluate_partition_result:
  assumes "fallback directions both \<noteq> []"
    and "normalization_factor p = Inr nf"
  shows "\<exists>s. evaluate_partition cfg p sub ss rd directions = Inr s
           \<and> phi s = Min ((\<lambda>d. ria_phi (integration_value cfg d sub p ss rd))
                            ` set (fallback directions both))
           \<and> (directions = None \<longrightarrow>
                phi s = min (ria_phi (integration_value cfg CAUSE sub p ss rd))
                            (ria_phi (integration_value cfg EFFECT sub p ss rd)))
           \<and> normalized_phi s = phi s * nf
           \<and> (own_normalization_factor p = None \<longrightarrow>
                nf = 1 / real (length (from_nodes p) * length (to_nodes p)))
           \<and> cause s = Some (integration_value cfg CAUSE sub p ss rd)
           \<and> effect s = Some (integration_value cfg EFFECT sub p ss rd)
           \<and> partition s = Some p"
proof -
  let ?phis = "map (\<lambda>d. ria_phi (integration_value cfg d sub p ss rd)) (fallback directions both)"
  have ne: "?phis \<noteq> []"
    using assms(1) by simp
  have m: "py_min ?phis = Inr (Min (set ?phis))"
    using ne by (rule py_min_Min)
  have d: "own_normalization_factor p = None \<longrightarrow>
             nf = 1 / real (length (from_nodes p) * length (to_nodes p))"
    using assms(2) by (auto simp: normalization_factor_def Let_def split: if_splits)
  have b: "directions = None \<longrightarrow>
             Min (set ?phis) = min (ria_phi (integration_value cfg CAUSE sub p ss rd))
                                   (ria_phi (integration_value cfg EFFECT sub p ss rd))"
    by (simp add: fallback_def both_def)
  show ?thesis
    using m assms(2) d b by (simp add: evaluate_partition_def Let_def)
qed

lemmas example_defs = example_subsystem_def example_config_def example_cut_def
  evaluate_partition_def integration_value_def normalization_factor_def fallback_def both_def

theorem evaluate_partition_result_witness:
  "fallback None both \<noteq> []
   \<and> normalization_factor (example_cut [0] [1, 2]) = Inr (1 / 2)
   \<and> (\<exists>s. evaluate_partition example_config (example_cut [0] [1, 2]) (example_subsystem 1 1)
              (system_intrinsic_information example_config (example_subsystem 1 1) None)
              None None = Inr s
         \<and> phi s = 1 \<and> normalized_phi s = 1 / 2
         \<and> map_option ria_phi (cause s) = Some 3
         \<and> map_option ria_phi (effect s) = Some 1)"
proof -
  let ?ss = "system_intrinsic_information example_config (example_subsystem 1 1) None"
  have h1: "fallback None both \<noteq> []"
    by (simp add: fallback_def both_def)
  have h2: "normalization_factor (example_cut [0] [1, 2]) = Inr (1 / 2)"
    by (simp add: example_defs Let_def)
  from evaluate_partition_result[OF h1 h2, of example_config "example_subsystem 1 1" ?ss None]
  obtain s where s: "evaluate_partition example_config (example_cut [0] [1, 2])
       (example_subsystem 1 1) ?ss None None = Inr s"
     "phi s = Min ((\<lambda>d. ria_phi (integration_value example_config d (example_subsystem 1 1)
                       (example_cut [0] [1, 2]) ?ss None)) ` set (fallback None both))"
     "normalized_phi s = phi s * (1 / 2)"
     "cause s = Some (integration_value example_config CAUSE (example_subsystem 1 1)
                       (example_cut [0] [1, 2]) ?ss None)"
     "effect s = Some (integration_value example_config EFFECT (example_subsystem 1 1)
                       (example_cut [0] [1, 2]) ?ss None)"
    by blast
  have p: "phi s = 1"
    unfolding s(2) by (simp add: example_defs Let_def)
  have "map_option ria_phi (cause s) = Some 3" "map_option ria_phi (effect s) = Some 1"
    unfolding s(4,5) by (simp_all add: example_defs Let_def)
  then show ?thesis
    using h1 h2 s(1,3) p by auto
qed

subsection \<open>The minimization key and the truth value\<close>

lemma evaluate_partition_normalized:
  assumes "evaluate_partition cfg p sub ss rd directions = Inr s"
  shows "\<exists>n. normalization_factor p = Inr n \<and> normalized_phi s = phi s * n"
  using assms
  by (auto simp: evaluate_partition_def Let_def split: sum.splits)

text \<open>
  C6. The truth value of an analysis (null variant included) is \<open>True\<close> exactly when its
  \<open>phi\<close> is strictly greater than zero; every \<^verbatim>\<open>NullSystemIrreducibilityAnalysis\<close> is
  falsy, since its \<open>phi\<close> is \<open>0\<close>.
\<close>

theorem sia_bool_iff_positive:
  "sia_bool s = (0 < phi s)
   \<and> \<not> sia_bool (NullSystemIrreducibilityAnalysis np ss cs ni nl rs)"
  by (simp add: sia_bool_def is_positive_def NullSystemIrreducibilityAnalysis_def)

subsection \<open>The short circuit of the search\<close>

text \<open>
  C3. When the resolved system state has intrinsic information \<open>\<le> 0\<close> in the cause or in
  the effect direction, \<^verbatim>\<open>sia()\<close> returns a null analysis (\<open>phi = 0\<close>, \<open>partition = None\<close>)
  whose reasons contain \<open>NO_CAUSE\<close> exactly when the cause direction has none and
  \<open>NO_EFFECT\<close> exactly when the effect direction has none, and no candidate partition has
  been evaluated, whatever the candidates are.
\<close>

theorem sia_short_circuit:
  assumes "ss = system_intrinsic_information cfg sub None"
    and "intrinsic_information (getitem ss CAUSE) \<le> 0
         \<or> intrinsic_information (getitem ss EFFECT) \<le> 0"
  shows "\<exists>out rs. sia eps cfg sub rd directions candidates = Inr out
           \<and> phi (returned out) = 0
           \<and> partition (returned out) = None
           \<and> reasons (returned out) = Some rs
           \<and> (NO_CAUSE \<in> set rs) = (intrinsic_information (getitem ss CAUSE) \<le> 0)
           \<and> (NO_EFFECT \<in> set rs) = (intrinsic_information (getitem ss EFFECT) \<le> 0)
           \<and> evaluated out = []"
  using assms
  by (auto simp: sia_def Let_def has_no_cause_or_effect_def both_def
      NullSystemIrreducibilityAnalysis_def)

lemmas sia_example_defs = sia_def system_intrinsic_information_def has_no_cause_or_effect_def
  NullSystemIrreducibilityAnalysis_def example_subsystem_def example_config_def fallback_def
  both_def

theorem sia_short_circuit_witness:
  "intrinsic_information
     (getitem (system_intrinsic_information example_config (example_subsystem 0 1) None) CAUSE) \<le> 0
   \<and> (\<exists>out. sia example_eps example_config (example_subsystem 0 1) None None
               [example_cut [0] [1, 2], example_cut [1] [0, 2]] = Inr out
            \<and> phi (returned out) = 0
            \<and> partition (returned out) = None
            \<and> reasons (returned out) = Some [NO_CAUSE]
            \<and> evaluated out = [])"
proof -
  let ?ss = "system_intrinsic_information example_config (example_subsystem 0 1) None"
  have h: "intrinsic_information (getitem ?ss CAUSE) \<le> 0"
    by (simp add: sia_example_defs Let_def)
  then have h': "intrinsic_information (getitem ?ss CAUSE) \<le> 0
         \<or> intrinsic_information (getitem ?ss EFFECT) \<le> 0"
    by simp
  from sia_short_circuit[OF refl h', of example_eps None None
         "[example_cut [0] [1, 2], example_cut [1] [0, 2]]"]
  obtain out rs where o: "sia example_eps example_config (example_subsystem 0 1) None None
               [example_cut [0] [1, 2], example_cut [1] [0, 2]] = Inr out"
      "phi (returned out) = 0" "partition (returned out) = None"
      "reasons (returned out) = Some rs" "evaluated out = []"
    by blast
  have "reasons (returned out) = Some [NO_CAUSE]"
    using o(1) by (auto simp: sia_example_defs Let_def)
  then show ?thesis
    using h o by blast
qed

subsection \<open>The one-pass minimization\<close>

lemma sentinel_lt: "key_lt eps (float_key k) (PosInf, NegInf)"
  by (simp add: key_lt_def float_key_def pf_lt_def)

lemma sentinel_not_eq: "\<not> key_eq eps (float_key k) (PosInf, NegInf)"
  by (simp add: key_eq_def float_key_def)

lemma key_lt_separated:
  assumes "0 \<le> eps"
    and "\<bar>normalized_phi x - normalized_phi y\<bar> \<le> eps \<longrightarrow> normalized_phi x = normalized_phi y"
    and "\<bar>phi x - phi y\<bar> \<le> eps \<longrightarrow> phi x = phi y"
  shows "key_lt eps (float_key (sia_minimization_key x)) (float_key (sia_minimization_key y))
           = lex_less (sia_minimization_key x) (sia_minimization_key y)"
  using assms
  by (auto simp: key_lt_def float_key_def pf_lt_def phi_eq_def sia_minimization_key_def lex_less_def)

lemma key_eq_separated:
  assumes "0 \<le> eps"
    and "\<bar>normalized_phi x - normalized_phi y\<bar> \<le> eps \<longrightarrow> normalized_phi x = normalized_phi y"
    and "\<bar>phi x - phi y\<bar> \<le> eps \<longrightarrow> phi x = phi y"
  shows "key_eq eps (float_key (sia_minimization_key x)) (float_key (sia_minimization_key y))
           = (sia_minimization_key x = sia_minimization_key y)"
  using assms
  by (auto simp: key_eq_def float_key_def phi_eq_def sia_minimization_key_def)

lemma lex_le_refl: "lex_le a a"
  by (simp add: lex_le_def)

lemma lex_less_le_trans: "lex_less a b \<Longrightarrow> lex_le b c \<Longrightarrow> lex_less a c"
  by (auto simp: lex_less_def lex_le_def)

lemma lex_less_imp_le: "lex_less a b \<Longrightarrow> lex_le a b"
  by (auto simp: lex_less_def lex_le_def)

lemma lex_less_imp_neq: "lex_less a b \<Longrightarrow> a \<noteq> b"
  by (auto simp: lex_less_def)

lemma lex_le_antisym: "lex_le a b \<Longrightarrow> lex_le b a \<Longrightarrow> a = b"
  by (auto simp: lex_le_def prod_eq_iff)

lemma not_lex_less_neq_imp_le: "\<not> lex_less a b \<Longrightarrow> lex_le b a"
  by (auto simp: lex_less_def lex_le_def)

lemma separated_D:
  assumes "separated eps obj xs" "a \<in> set xs" "b \<in> set xs"
  shows "\<bar>normalized_phi (obj a) - normalized_phi (obj b)\<bar> \<le> eps
           \<longrightarrow> normalized_phi (obj a) = normalized_phi (obj b)"
    and "\<bar>phi (obj a) - phi (obj b)\<bar> \<le> eps \<longrightarrow> phi (obj a) = phi (obj b)"
  using assms unfolding separated_def by blast+

lemma mip_loop_invariant:
  assumes "0 \<le> eps"
    and "separated eps obj (seen @ cs)"
    and "m \<in> set seen"
    and "\<forall>c \<in> set seen. lex_le (min_key obj m) (min_key obj c)"
  shows "\<exists>w. mip_loop eps obj cs
                (m, float_key (min_key obj m), filter (\<lambda>c. min_key obj c = min_key obj m) seen)
              = (w, float_key (min_key obj w),
                 filter (\<lambda>c. min_key obj c = min_key obj w) (seen @ cs))
            \<and> w \<in> set (seen @ cs)
            \<and> (\<forall>c \<in> set (seen @ cs). lex_le (min_key obj w) (min_key obj c))"
  using assms(2-)
proof (induction cs arbitrary: seen m)
  case Nil
  then show ?case by simp
next
  case (Cons c cs)
  let ?K = "min_key obj"
  have sep': "separated eps obj ((seen @ [c]) @ cs)"
    using Cons.prems(1) by simp
  have cin: "c \<in> set (seen @ c # cs)" and min': "m \<in> set (seen @ c # cs)"
    using Cons.prems(2) by simp_all
  have lt: "key_lt eps (float_key (?K c)) (float_key (?K m)) = lex_less (?K c) (?K m)"
    unfolding min_key_def
    by (rule key_lt_separated[OF assms(1) separated_D[OF Cons.prems(1) cin min']])
  have eq: "key_eq eps (float_key (?K c)) (float_key (?K m)) = (?K c = ?K m)"
    unfolding min_key_def
    by (rule key_eq_separated[OF assms(1) separated_D[OF Cons.prems(1) cin min']])
  consider (less) "lex_less (?K c) (?K m)" | (equal) "\<not> lex_less (?K c) (?K m)" "?K c = ?K m"
    | (greater) "\<not> lex_less (?K c) (?K m)" "?K c \<noteq> ?K m"
    by blast
  then show ?case
  proof cases
    case less
    have all: "\<forall>x \<in> set (seen @ [c]). lex_le (?K c) (?K x)"
      using less Cons.prems(3) by (auto intro: lex_le_refl lex_less_imp_le lex_less_le_trans)
    have "\<forall>x \<in> set seen. ?K x \<noteq> ?K c"
      using less Cons.prems(3) lex_less_le_trans lex_less_imp_neq by metis
    then have f: "filter (\<lambda>x. ?K x = ?K c) (seen @ [c]) = [c]"
      by (simp add: filter_empty_conv)
    have step: "mip_loop eps obj (c # cs) (m, float_key (?K m), filter (\<lambda>x. ?K x = ?K m) seen)
                = mip_loop eps obj cs (c, float_key (?K c), filter (\<lambda>x. ?K x = ?K c) (seen @ [c]))"
      using less lt f by (simp add: min_key_def)
    from Cons.IH[OF sep' _ all] show ?thesis
      unfolding step by simp
  next
    case equal
    have all: "\<forall>x \<in> set (seen @ [c]). lex_le (?K m) (?K x)"
      using equal Cons.prems(3) by (auto intro: lex_le_refl)
    have f: "filter (\<lambda>x. ?K x = ?K m) (seen @ [c]) = filter (\<lambda>x. ?K x = ?K m) seen @ [c]"
      using equal by simp
    have step: "mip_loop eps obj (c # cs) (m, float_key (?K m), filter (\<lambda>x. ?K x = ?K m) seen)
                = mip_loop eps obj cs (m, float_key (?K m), filter (\<lambda>x. ?K x = ?K m) (seen @ [c]))"
      using equal lt eq f by (simp add: min_key_def)
    have "m \<in> set (seen @ [c])" using Cons.prems(2) by simp
    from Cons.IH[OF sep' this all] show ?thesis
      unfolding step by simp
  next
    case greater
    have all: "\<forall>x \<in> set (seen @ [c]). lex_le (?K m) (?K x)"
      using greater Cons.prems(3) by (auto intro: not_lex_less_neq_imp_le)
    have f: "filter (\<lambda>x. ?K x = ?K m) (seen @ [c]) = filter (\<lambda>x. ?K x = ?K m) seen"
      using greater by simp
    have step: "mip_loop eps obj (c # cs) (m, float_key (?K m), filter (\<lambda>x. ?K x = ?K m) seen)
                = mip_loop eps obj cs (m, float_key (?K m), filter (\<lambda>x. ?K x = ?K m) (seen @ [c]))"
      using greater lt eq f by (simp add: min_key_def)
    have "m \<in> set (seen @ [c])" using Cons.prems(2) by simp
    from Cons.IH[OF sep' this all] show ?thesis
      unfolding step by simp
  qed
qed

lemma fold_set_ties_in:
  "a \<in> set xs \<Longrightarrow> fold (\<lambda>t. set_ties t ts) xs st a = Some ts"
  by (induction xs arbitrary: st rule: rev_induct) (auto simp: set_ties_def)

lemma fold_set_ties_out:
  "a \<notin> set xs \<Longrightarrow> fold (\<lambda>t. set_ties t ts) xs st a = st a"
  by (induction xs arbitrary: st) (auto simp: set_ties_def)

lemma find_mip_Nil: "find_mip eps obj d [] st = (d, st(d \<mapsto> [d]))"
  by (simp add: find_mip_def set_ties_def)

lemma find_mip_Cons:
  assumes "0 \<le> eps" and "separated eps obj (c # cs)"
  shows "\<exists>w. find_mip eps obj d (c # cs) st
               = (w, fold (\<lambda>t. set_ties t (filter (\<lambda>x. min_key obj x = min_key obj w) (c # cs)))
                       (filter (\<lambda>x. min_key obj x = min_key obj w) (c # cs)) st)
            \<and> w \<in> set (c # cs)
            \<and> (\<forall>x \<in> set (c # cs). lex_le (min_key obj w) (min_key obj x))"
proof -
  have first: "mip_loop eps obj (c # cs) (d, (PosInf, NegInf), [d])
               = mip_loop eps obj cs
                   (c, float_key (min_key obj c), filter (\<lambda>x. min_key obj x = min_key obj c) [c])"
    using sentinel_lt[of eps "min_key obj c"] by (simp add: min_key_def)
  have sep: "separated eps obj ([c] @ cs)"
    using assms(2) by simp
  have "\<forall>x \<in> set [c]. lex_le (min_key obj c) (min_key obj x)"
    by (simp add: lex_le_refl)
  from mip_loop_invariant[OF assms(1) sep _ this]
  obtain w where w: "mip_loop eps obj cs
                (c, float_key (min_key obj c), filter (\<lambda>x. min_key obj x = min_key obj c) [c])
              = (w, float_key (min_key obj w),
                 filter (\<lambda>x. min_key obj x = min_key obj w) ([c] @ cs))"
     "w \<in> set ([c] @ cs)" "\<forall>x \<in> set ([c] @ cs). lex_le (min_key obj w) (min_key obj x)"
    by auto
  show ?thesis
    using w unfolding find_mip_def first by (intro exI[of _ w]) simp
qed

lemma find_mip_separated_aux:
  assumes "0 \<le> eps" and "separated eps obj sias" and "sias \<noteq> []"
  shows "case find_mip eps obj d sias st of (w, st') \<Rightarrow>
            w \<in> set sias
          \<and> (\<forall>c \<in> set sias. lex_le (min_key obj w) (min_key obj c))
          \<and> ties_of st' w = filter (\<lambda>c. min_key obj c = min_key obj w) sias
          \<and> (\<forall>t \<in> set (ties_of st' w). ties_of st' t = ties_of st' w)"
proof -
  obtain c cs where sias: "sias = c # cs"
    using assms(3) by (cases sias) auto
  let ?T = "\<lambda>w. filter (\<lambda>x. min_key obj x = min_key obj w) sias"
  obtain w where w: "find_mip eps obj d sias st = (w, fold (\<lambda>t. set_ties t (?T w)) (?T w) st)"
      "w \<in> set sias" "\<forall>x \<in> set sias. lex_le (min_key obj w) (min_key obj x)"
    using find_mip_Cons[OF assms(1), of obj c cs d st] assms(2) unfolding sias by blast
  have win: "w \<in> set (?T w)"
    using w(2) by simp
  have t: "\<And>t. t \<in> set (?T w) \<Longrightarrow> ties_of (fold (\<lambda>t. set_ties t (?T w)) (?T w) st) t = ?T w"
    by (simp add: ties_of_def ties_def fold_set_ties_in)
  show ?thesis
    unfolding w(1) using w(2,3) t[OF win] t by simp
qed

lemma separated_mset:
  assumes "mset xs = mset ys"
  shows "separated eps obj xs = separated eps obj ys"
proof -
  have "set xs = set ys"
    using assms by (rule mset_eq_setD)
  then show ?thesis
    by (simp add: separated_def)
qed

lemmas eval_defs = find_mip_def key_lt_def key_eq_def pf_lt_def phi_eq_def float_key_def
  sia_minimization_key_def candidate_def set_ties_def ties_of_def ties_def example_eps_def
  min_key_def lex_le_def lex_less_def

text \<open>
  C1, as amended. When the keys of the delivered results are separated (the tolerance of
  the comparison never makes two different numbers equal; always so for \<open>eps = 0\<close>) and at
  least one result is delivered, the analysis that \<^verbatim>\<open>sia()\<close> returns is one of the results,
  its key \<open>(normalized_phi, -phi)\<close> is lexicographically \<open>\<le>\<close> the key of every result, its
  tie list holds exactly the results whose key equals its own, in delivery order, and
  every member of that list reports the same list. With no result, the default analysis
  is returned and its tie list is itself alone.
\<close>

theorem find_mip_separated:
  assumes "0 \<le> eps" and "separated eps obj sias"
  shows "(sias = [] \<longrightarrow> find_mip eps obj d sias st = (d, st(d \<mapsto> [d])))
       \<and> (sias \<noteq> [] \<longrightarrow>
            (case find_mip eps obj d sias st of (w, st') \<Rightarrow>
               w \<in> set sias
             \<and> (\<forall>c \<in> set sias. lex_le (min_key obj w) (min_key obj c))
             \<and> ties_of st' w = filter (\<lambda>c. min_key obj c = min_key obj w) sias
             \<and> (\<forall>t \<in> set (ties_of st' w). ties_of st' t = ties_of st' w)))"
proof (intro conjI impI)
  assume "sias = []"
  then show "find_mip eps obj d sias st = (d, st(d \<mapsto> [d]))"
    by (simp add: find_mip_Nil)
next
  assume "sias \<noteq> []"
  then show "case find_mip eps obj d sias st of (w, st') \<Rightarrow>
               w \<in> set sias
             \<and> (\<forall>c \<in> set sias. lex_le (min_key obj w) (min_key obj c))
             \<and> ties_of st' w = filter (\<lambda>c. min_key obj c = min_key obj w) sias
             \<and> (\<forall>t \<in> set (ties_of st' w). ties_of st' t = ties_of st' w)"
    by (rule find_mip_separated_aux[OF assms])
qed

theorem find_mip_separated_witness:
  "0 \<le> example_eps
   \<and> separated example_eps well_separated [1, 2, 3, 4, 5]
   \<and> fst (find_mip example_eps well_separated 0 [1, 2, 3, 4, 5] Map.empty) = 4
   \<and> ties_of (snd (find_mip example_eps well_separated 0 [1, 2, 3, 4, 5] Map.empty)) 4 = [4, 5]
   \<and> ties_of (snd (find_mip example_eps well_separated 0 [1, 2, 3, 4, 5] Map.empty)) 5 = [4, 5]
   \<and> lex_le (min_key well_separated 4) (min_key well_separated 1)
   \<and> find_mip example_eps well_separated 0 [] Map.empty = (0, [0 \<mapsto> [0]])"
proof -
  have h1: "0 \<le> example_eps"
    by (simp add: example_eps_def)
  have h2: "separated example_eps well_separated [1, 2, 3, 4, 5]"
    by (simp add: separated_def well_separated_def candidate_def example_eps_def)
  have h3: "separated example_eps well_separated []"
    by (simp add: separated_def)
  have v: "find_mip example_eps well_separated 0 [1, 2, 3, 4, 5] Map.empty
           = (4, [4 \<mapsto> [4, 5], 5 \<mapsto> [4, 5]])"
    by (simp add: eval_defs well_separated_def)
  show ?thesis
    using find_mip_separated[OF h1 h2, of 0 Map.empty] find_mip_separated[OF h1 h3, of 0 Map.empty]
      h1 h2
    unfolding v by (simp add: ties_of_def ties_def)
qed

text \<open>
  Without the separation the statement of C1 fails. With tolerance \<open>1e-13\<close> and four
  results of \<open>phi = 2\<close> whose \<open>normalized_phi\<close> are \<open>1 + 12e-14\<close>, \<open>1 + 6e-14\<close>, \<open>1\<close> and
  \<open>1 - 3e-14\<close>, delivered in this order, the third is returned with the tie list
  \<open>[third, fourth]\<close>: the fourth has a key strictly below the winner's (and different from
  it), and the second, whose key the comparison counts as equal to the winner's, is
  missing from the list. (With no result at all, the tie list holds the default analysis,
  which is no candidate.)
\<close>

theorem find_mip_near_tie_counterexample:
  "fst (find_mip example_eps near_tied 0 [1, 2, 3, 4] Map.empty) = 3
   \<and> ties_of (snd (find_mip example_eps near_tied 0 [1, 2, 3, 4] Map.empty)) 3 = [3, 4]
   \<and> \<not> lex_le (min_key near_tied 3) (min_key near_tied 4)
   \<and> min_key near_tied 4 \<noteq> min_key near_tied 3
   \<and> key_eq example_eps (float_key (min_key near_tied 2)) (float_key (min_key near_tied 3))
   \<and> 2 \<notin> set (ties_of (snd (find_mip example_eps near_tied 0 [1, 2, 3, 4] Map.empty)) 3)
   \<and> ties_of (snd (find_mip example_eps near_tied 0 [] Map.empty))
        (fst (find_mip example_eps near_tied 0 [] Map.empty)) = [0]"
  by (simp add: eval_defs near_tied_def)

text \<open>
  C2, as amended. When the keys of the delivered results are separated, the tie list of
  the returned analysis has the same members for every delivery order of the results.
\<close>

theorem find_mip_ties_permutation:
  assumes "0 \<le> eps" and "separated eps obj xs" and "mset xs = mset ys"
  shows "set (ties_of (snd (find_mip eps obj d xs st)) (fst (find_mip eps obj d xs st)))
       = set (ties_of (snd (find_mip eps obj d ys st)) (fst (find_mip eps obj d ys st)))"
proof (cases "xs = []")
  case True
  then have "ys = []" using assms(3) by simp
  with True show ?thesis by simp
next
  case False
  then have ysne: "ys \<noteq> []" using assms(3) by auto
  have sety: "set ys = set xs"
    using assms(3) mset_eq_setD by metis
  have sepy: "separated eps obj ys"
    using assms(2,3) separated_mset by blast
  obtain w st' where r: "find_mip eps obj d xs st = (w, st')"
    by (cases "find_mip eps obj d xs st")
  obtain v st'' where q: "find_mip eps obj d ys st = (v, st'')"
    by (cases "find_mip eps obj d ys st")
  from find_mip_separated_aux[OF assms(1,2) False, of d st]
  have a: "w \<in> set xs" "\<forall>c \<in> set xs. lex_le (min_key obj w) (min_key obj c)"
      "ties_of st' w = filter (\<lambda>c. min_key obj c = min_key obj w) xs"
    unfolding r by simp_all
  from find_mip_separated_aux[OF assms(1) sepy ysne, of d st]
  have b: "v \<in> set ys" "\<forall>c \<in> set ys. lex_le (min_key obj v) (min_key obj c)"
      "ties_of st'' v = filter (\<lambda>c. min_key obj c = min_key obj v) ys"
    unfolding q by simp_all
  have "min_key obj w = min_key obj v"
    using a(1,2) b(1,2) sety by (intro lex_le_antisym) auto
  then show ?thesis
    unfolding r q using a(3) b(3) sety by simp
qed

theorem find_mip_ties_permutation_witness:
  "0 \<le> example_eps
   \<and> separated example_eps well_separated [1, 2, 3, 4, 5]
   \<and> mset [1, 2, 3, 4, 5] = mset [5, 3, 1, 4, 2 :: addr]
   \<and> set (ties_of (snd (find_mip example_eps well_separated 0 [5, 3, 1, 4, 2] Map.empty))
            (fst (find_mip example_eps well_separated 0 [5, 3, 1, 4, 2] Map.empty)))
      = {4, 5}"
proof -
  have h1: "0 \<le> example_eps"
    by (simp add: example_eps_def)
  have h2: "separated example_eps well_separated [1, 2, 3, 4, 5]"
    by (simp add: separated_def well_separated_def candidate_def example_eps_def)
  have h3: "mset [1, 2, 3, 4, 5] = mset [5, 3, 1, 4, 2 :: addr]"
    by simp
  have v: "find_mip example_eps well_separated 0 [1, 2, 3, 4, 5] Map.empty
           = (4, [4 \<mapsto> [4, 5], 5 \<mapsto> [4, 5]])"
    by (simp add: eval_defs well_separated_def)
  have "set (ties_of (snd (find_mip example_eps well_separated 0 [5, 3, 1, 4, 2] Map.empty))
            (fst (find_mip example_eps well_separated 0 [5, 3, 1, 4, 2] Map.empty)))
        = set (ties_of (snd (find_mip example_eps well_separated 0 [1, 2, 3, 4, 5] Map.empty))
            (fst (find_mip example_eps well_separated 0 [1, 2, 3, 4, 5] Map.empty)))"
    using find_mip_ties_permutation[OF h1 h2 h3, of 0 Map.empty] by simp
  also have "\<dots> = {4, 5}"
    unfolding v by (simp add: ties_of_def ties_def)
  finally show ?thesis
    using h1 h2 h3 by simp
qed

text \<open>
  Without the separation the members of the tie list depend on the delivery order: of
  three results with \<open>normalized_phi\<close> \<open>1\<close>, \<open>1 + 6e-14\<close> and \<open>1 + 12e-14\<close>, the order
  \<open>[1, 1 + 6e-14, 1 + 12e-14]\<close> leaves the first two in the list, the order
  \<open>[1 + 6e-14, 1, 1 + 12e-14]\<close> all three.
\<close>

theorem find_mip_order_counterexample:
  "mset [3, 2, 1] = mset [2, 3, 1 :: addr]
   \<and> ties_of (snd (find_mip example_eps near_tied 0 [3, 2, 1] Map.empty))
        (fst (find_mip example_eps near_tied 0 [3, 2, 1] Map.empty)) = [3, 2]
   \<and> ties_of (snd (find_mip example_eps near_tied 0 [2, 3, 1] Map.empty))
        (fst (find_mip example_eps near_tied 0 [2, 3, 1] Map.empty)) = [2, 3, 1]
   \<and> set (ties_of (snd (find_mip example_eps near_tied 0 [3, 2, 1] Map.empty))
        (fst (find_mip example_eps near_tied 0 [3, 2, 1] Map.empty)))
     \<noteq> set (ties_of (snd (find_mip example_eps near_tied 0 [2, 3, 1] Map.empty))
        (fst (find_mip example_eps near_tied 0 [2, 3, 1] Map.empty)))"
proof -
  have a: "ties_of (snd (find_mip example_eps near_tied 0 [3, 2, 1] Map.empty))
        (fst (find_mip example_eps near_tied 0 [3, 2, 1] Map.empty)) = [3, 2]"
    by (simp add: eval_defs near_tied_def)
  have b: "ties_of (snd (find_mip example_eps near_tied 0 [2, 3, 1] Map.empty))
        (fst (find_mip example_eps near_tied 0 [2, 3, 1] Map.empty)) = [2, 3, 1]"
    by (simp add: eval_defs near_tied_def)
  have c: "(1::addr) \<in> set [2, 3, 1]" "(1::addr) \<notin> set [3, 2]"
    by simp_all
  have d: "set [3, 2] \<noteq> set [2, 3, 1 :: addr]"
    using c by metis
  have e: "mset [3, 2, 1] = mset [2, 3, 1 :: addr]"
    by simp
  show ?thesis
    unfolding a b using d e by simp
qed

subsection \<open>Zero-phi partitions\<close>

lemma scored_by_positive_factorI:
  assumes "evaluate_partition cfg q sub ss rd directions = Inr s"
    and "0 \<le> phi s" and "normalization_factor q = Inr n" and "0 < n"
  shows "scored_by_positive_factor s"
proof -
  from evaluate_partition_normalized[OF assms(1)] assms(3)
  have "normalized_phi s = phi s * n" by auto
  then show ?thesis
    using assms(2,4) by (auto simp: scored_by_positive_factor_def)
qed

lemma zero_key_le_scored:
  assumes "scored_by_positive_factor s"
  shows "lex_le (0, 0) (sia_minimization_key s)"
  using assms
  by (auto simp: scored_by_positive_factor_def lex_le_def sia_minimization_key_def
      split: if_splits)

lemma find_mip_zero_phi:
  assumes "0 \<le> eps" and "separated eps obj sias" and "a \<in> set sias"
    and "sia_minimization_key (obj a) = (0, 0)"
    and "\<forall>c \<in> set sias. scored_by_positive_factor (obj c)"
  shows "sia_minimization_key (obj (fst (find_mip eps obj d sias st))) = (0, 0)"
proof -
  have ne: "sias \<noteq> []"
    using assms(3) by auto
  obtain w st' where r: "find_mip eps obj d sias st = (w, st')"
    by (cases "find_mip eps obj d sias st")
  from find_mip_separated_aux[OF assms(1,2) ne, of d st]
  have w: "w \<in> set sias" "\<forall>c \<in> set sias. lex_le (min_key obj w) (min_key obj c)"
    unfolding r by simp_all
  have "lex_le (min_key obj w) (0, 0)"
    using w(2) assms(3,4) by (auto simp: min_key_def)
  moreover have "lex_le (0, 0) (min_key obj w)"
    unfolding min_key_def using assms(5) w(1) by (intro zero_key_le_scored) blast
  ultimately have "min_key obj w = (0, 0)"
    by (rule lex_le_antisym)
  then show ?thesis
    unfolding r by (simp add: min_key_def)
qed

text \<open>
  C5, as amended. Take an evaluated analysis with \<open>phi = 0\<close> and another evaluated
  analysis whose \<open>phi\<close> is \<open>\<ge> 0\<close> and whose partition has a positive normalization factor.
  The key \<open>(normalized_phi, -phi)\<close> of the first is lexicographically \<open>\<le>\<close> the key of the
  second in the exact order. The comparison of the search, which is up to the tolerance
  \<open>eps\<close>, puts the second key strictly below the zero-phi key exactly when the second's
  \<open>normalized_phi\<close> is within \<open>eps\<close> of zero while its \<open>phi\<close> exceeds \<open>eps\<close>. When the keys
  of the delivered results are separated, the minimization over any results of
  non-negative \<open>phi\<close> and positive factor that include the zero-phi one returns an
  analysis with the key \<open>(0, 0)\<close> of the zero-phi partition, so that stopping at the
  zero-phi partition does not change the winning key.
\<close>

theorem zero_phi_key_least:
  assumes "0 \<le> eps"
    and "evaluate_partition cfg p sub ss rd directions = Inr z"
    and "phi z = 0"
    and "evaluate_partition cfg' q sub' ss' rd' directions' = Inr s"
    and "0 \<le> phi s"
    and "normalization_factor q = Inr n"
    and "0 < n"
  shows "lex_le (sia_minimization_key z) (sia_minimization_key s)
       \<and> key_lt eps (float_key (sia_minimization_key s)) (float_key (sia_minimization_key z))
           = (normalized_phi s \<le> eps \<and> eps < phi s)
       \<and> (\<forall>obj sias a d st.
             separated eps obj sias \<and> a \<in> set sias \<and> obj a = z
               \<and> (\<forall>c \<in> set sias. scored_by_positive_factor (obj c))
             \<longrightarrow> sia_minimization_key (obj (fst (find_mip eps obj d sias st))) = (0, 0))"
proof -
  from evaluate_partition_normalized[OF assms(2)] assms(3)
  have z: "normalized_phi z = 0" by auto
  from evaluate_partition_normalized[OF assms(4)] assms(6)
  have s: "normalized_phi s = phi s * n" by auto
  have kz: "sia_minimization_key z = (0, 0)"
    using z assms(3) by (simp add: sia_minimization_key_def)
  have sc: "scored_by_positive_factor s"
    using assms(4-7) by (rule scored_by_positive_factorI)
  have np: "0 \<le> normalized_phi s"
    using s assms(5,7) by simp
  have a: "lex_le (sia_minimization_key z) (sia_minimization_key s)"
    unfolding kz using sc by (rule zero_key_le_scored)
  have b: "key_lt eps (float_key (sia_minimization_key s)) (float_key (sia_minimization_key z))
           = (normalized_phi s \<le> eps \<and> eps < phi s)"
    unfolding kz using np assms(1,5)
    by (auto simp: key_lt_def float_key_def pf_lt_def phi_eq_def sia_minimization_key_def)
  have c: "\<forall>obj sias a d st.
             separated eps obj sias \<and> a \<in> set sias \<and> obj a = z
               \<and> (\<forall>c \<in> set sias. scored_by_positive_factor (obj c))
             \<longrightarrow> sia_minimization_key (obj (fst (find_mip eps obj d sias st))) = (0, 0)"
    using find_mip_zero_phi[OF assms(1)] kz by blast
  show ?thesis
    using a b c by blast
qed

theorem zero_phi_key_least_witness:
  "0 \<le> example_eps
   \<and> (\<exists>z s. evaluate_partition example_config (example_cut [0] [1]) (example_subsystem 1 1)
              (system_intrinsic_information example_config (example_subsystem 1 1) None)
              None None = Inr z
         \<and> phi z = 0
         \<and> evaluate_partition example_config (example_cut [0] [1, 2]) (example_subsystem 1 1)
              (system_intrinsic_information example_config (example_subsystem 1 1) None)
              None None = Inr s
         \<and> 0 \<le> phi s
         \<and> normalization_factor (example_cut [0] [1, 2]) = Inr (1 / 2)
         \<and> sia_minimization_key z = (0, 0)
         \<and> sia_minimization_key s = (1 / 2, - 1)
         \<and> lex_le (sia_minimization_key z) (sia_minimization_key s)
         \<and> \<not> key_lt example_eps (float_key (sia_minimization_key s))
                (float_key (sia_minimization_key z))
         \<and> separated example_eps (\<lambda>a. if a = 1 then s else z) [1, 2]
         \<and> sia_minimization_key
              ((\<lambda>a. if a = 1 then s else z)
                 (fst (find_mip example_eps (\<lambda>a. if a = 1 then s else z) 0 [1, 2] Map.empty)))
            = (0, 0))"
proof -
  let ?ss = "system_intrinsic_information example_config (example_subsystem 1 1) None"
  have e: "0 \<le> example_eps"
    by (simp add: example_eps_def)
  obtain z where z: "evaluate_partition example_config (example_cut [0] [1]) (example_subsystem 1 1)
              ?ss None None = Inr z" "phi z = 0" "normalized_phi z = 0"
      "sia_minimization_key z = (0, 0)"
    by (simp add: example_defs Let_def sia_minimization_key_def)
  obtain s where s: "evaluate_partition example_config (example_cut [0] [1, 2]) (example_subsystem 1 1)
              ?ss None None = Inr s" "0 \<le> phi s" "phi s = 1" "normalized_phi s = 1 / 2"
      "sia_minimization_key s = (1 / 2, - 1)"
    by (simp add: example_defs Let_def sia_minimization_key_def)
  have n: "normalization_factor (example_cut [0] [1, 2]) = Inr (1 / 2)"
    by (simp add: example_defs Let_def)
  let ?obj = "\<lambda>a. if a = (1::nat) then s else z"
  have sep: "separated example_eps ?obj [1, 2]"
    using z(2,3) s(3,4) by (simp add: separated_def example_eps_def)
  have sc: "\<forall>c \<in> set [1, 2]. scored_by_positive_factor (?obj c)"
    using z(2,3) s(3,4) by (simp add: scored_by_positive_factor_def)
  note t = zero_phi_key_least[OF e z(1,2) s(1,2) n]
  have t1: "lex_le (sia_minimization_key z) (sia_minimization_key s)"
    using t by simp
  have t2: "\<not> key_lt example_eps (float_key (sia_minimization_key s))
                (float_key (sia_minimization_key z))"
    using t s(3,4) by (simp add: example_eps_def)
  have t3: "sia_minimization_key (?obj (fst (find_mip example_eps ?obj 0 [1, 2] Map.empty))) = (0, 0)"
  proof -
    from t have "\<forall>obj sias a d st.
             separated example_eps obj sias \<and> a \<in> set sias \<and> obj a = z
               \<and> (\<forall>c \<in> set sias. scored_by_positive_factor (obj c))
             \<longrightarrow> sia_minimization_key (obj (fst (find_mip example_eps obj d sias st))) = (0, 0)"
      by simp
    from this[rule_format, of ?obj "[1, 2]" 2 0 Map.empty] sep sc show ?thesis
      by simp
  qed
  show ?thesis
    using e z(1,2,4) s(1,2,5) n t1 t2 sep t3 by blast
qed

text \<open>
  Without the separation a partition can score lower than a zero-phi partition. With
  tolerance \<open>1e-13\<close>, a cut of four by four nodes (factor \<open>1/16\<close>) and \<open>phi = 1e-12\<close> has the
  key \<open>(6.25e-14, -1e-12)\<close>, which the comparison puts strictly below the key \<open>(0, 0)\<close> of
  a zero-phi cut: the first components are within the tolerance, the second decide. When
  both cuts are evaluated in this order the search returns the first, with \<open>phi = 1e-12\<close>;
  in the other order it stops at the zero-phi cut and returns it.
\<close>

lemmas tiny_defs = tiny_phi_subsystem_def example_config_def example_cut_def
  evaluate_partition_def integration_value_def normalization_factor_def fallback_def both_def
  system_intrinsic_information_def sia_minimization_key_def

theorem zero_phi_undercut_counterexample:
  "map_sum id sia_minimization_key
     (evaluate_partition example_config (example_cut [0] [1]) tiny_phi_subsystem
        (system_intrinsic_information example_config tiny_phi_subsystem None) None None)
     = Inr (0, 0)
   \<and> map_sum id sia_minimization_key
     (evaluate_partition example_config (example_cut [0, 1, 2, 3] [4, 5, 6, 7]) tiny_phi_subsystem
        (system_intrinsic_information example_config tiny_phi_subsystem None) None None)
     = Inr (1 / (16 * 10 ^ 12), - (1 / 10 ^ 12))
   \<and> normalization_factor (example_cut [0, 1, 2, 3] [4, 5, 6, 7]) = Inr (1 / 16)
   \<and> key_lt example_eps (float_key (1 / (16 * 10 ^ 12), - (1 / 10 ^ 12))) (float_key (0, 0))
   \<and> map_sum id (\<lambda>out. phi (returned out))
        (sia example_eps example_config tiny_phi_subsystem None None
           [example_cut [0, 1, 2, 3] [4, 5, 6, 7], example_cut [0] [1]])
     = Inr (1 / 10 ^ 12)
   \<and> map_sum id evaluated
        (sia example_eps example_config tiny_phi_subsystem None None
           [example_cut [0, 1, 2, 3] [4, 5, 6, 7], example_cut [0] [1]])
     = Inr [example_cut [0, 1, 2, 3] [4, 5, 6, 7], example_cut [0] [1]]
   \<and> map_sum id (\<lambda>out. phi (returned out))
        (sia example_eps example_config tiny_phi_subsystem None None
           [example_cut [0] [1], example_cut [0, 1, 2, 3] [4, 5, 6, 7]])
     = Inr 0"
proof -
  let ?ss = "system_intrinsic_information example_config tiny_phi_subsystem None"
  let ?z = "example_cut [0] [1]"
  let ?s = "example_cut [0, 1, 2, 3] [4, 5, 6, 7]"
  have ez: "map_sum id sia_minimization_key
     (evaluate_partition example_config ?z tiny_phi_subsystem ?ss None None) = Inr (0, 0)"
    by (simp add: tiny_defs Let_def)
  have es: "map_sum id sia_minimization_key
     (evaluate_partition example_config ?s tiny_phi_subsystem ?ss None None)
     = Inr (1 / (16 * 10 ^ 12), - (1 / 10 ^ 12))"
    by (simp add: tiny_defs Let_def)
  have nf: "normalization_factor ?s = Inr (1 / 16)"
    by (simp add: tiny_defs Let_def)
  have lt: "key_lt example_eps (float_key (1 / (16 * 10 ^ 12), - (1 / 10 ^ 12))) (float_key (0, 0))"
    by (simp add: key_lt_def float_key_def pf_lt_def phi_eq_def example_eps_def)
  have upt2: "[1 ..< Suc (Suc (Suc 0))] = [1, 2]" and upt1: "[1 ..< Suc (Suc 0)] = [1]"
    by (simp_all add: upt_rec)
  have r1: "map_sum id (\<lambda>out. (phi (returned out), evaluated out))
        (sia example_eps example_config tiny_phi_subsystem None None [?s, ?z])
     = Inr (1 / 10 ^ 12, [?s, ?z])"
    by (simp add: sia_def has_no_cause_or_effect_def is_falsy_def sia_bool_def is_positive_def
        NullSystemIrreducibilityAnalysis_def tiny_defs eval_defs Let_def upt2)
  have r2: "map_sum id (\<lambda>out. phi (returned out))
        (sia example_eps example_config tiny_phi_subsystem None None [?z, ?s]) = Inr 0"
    by (simp add: sia_def has_no_cause_or_effect_def is_falsy_def sia_bool_def is_positive_def
        NullSystemIrreducibilityAnalysis_def tiny_defs eval_defs Let_def upt1)
  from r1 have r1a: "map_sum id (\<lambda>out. phi (returned out))
        (sia example_eps example_config tiny_phi_subsystem None None [?s, ?z]) = Inr (1 / 10 ^ 12)"
    and r1b: "map_sum id evaluated
        (sia example_eps example_config tiny_phi_subsystem None None [?s, ?z]) = Inr [?s, ?z]"
    by (cases "sia example_eps example_config tiny_phi_subsystem None None [?s, ?z]"; simp)+
  show ?thesis
    using ez es nf lt r1a r1b r2 by blast
qed

subsection \<open>Tie resolution\<close>

text \<open>
  C7. With the strategy \<^verbatim>\<open>"NONE"\<close>, \<^verbatim>\<open>resolve()\<close> yields the objects unchanged, or the
  supplied default when there are none, whatever the registry holds and whatever the
  reduction is: no scoring function is looked up or called, the one registered as
  \<^verbatim>\<open>"NONE"\<close> included. That function, called on any object, raises an error.
\<close>

theorem resolve_NONE:
  "resolve reg objects (Name ''NONE'') operation dflt = Inr (iter_with_default objects dflt)
   \<and> iter_with_default (x # xs) dflt = x # xs
   \<and> iter_with_default [] (Some d) = [d]
   \<and> (\<exists>f. phi_object_tie_resolution_strategies ''NONE'' = Some f
          \<and> (\<forall>m. f m = Inl NotImplementedError))"
  by (simp add: resolve_def iter_with_default_def phi_object_tie_resolution_strategies_def)

text \<open>
  Only the bare name is the sentinel: inside a sequence of names \<^verbatim>\<open>"NONE"\<close> is looked up
  and called like every other strategy, and the call raises.
\<close>

lemma resolve_NONE_in_sequence:
  "resolve phi_object_tie_resolution_strategies [candidate_A] (Names [''NONE'']) all_maxima None
     = Inl NotImplementedError"
  by (simp add: resolve_def strategies_to_key_function_def
      phi_object_tie_resolution_strategies_def)

lemma scores_registered:
  assumes "\<forall>n \<in> set names. \<exists>f. reg n = Some f \<and> f obj = Inr (score n obj)"
  shows "scores reg names obj = Inr (map (\<lambda>n. score n obj) names)"
  using assms by (induction names) auto

lemma map_keys_total:
  assumes "\<forall>x \<in> set xs. sortkey x = Inr (key x)"
  shows "map_keys sortkey xs = Inr (map key xs)"
  using assms by (induction xs) auto

lemma zip_map_self: "zip (map f xs) xs = map (\<lambda>x. (f x, x)) xs"
  by (induction xs) auto

lemma all_maxima_keyed:
  "map snd (all_maxima (zip (map key xs) xs) None)
     = filter (\<lambda>a. \<forall>b \<in> set xs. \<not> tuple_lt (key a) (key b)) xs"
  by (simp add: all_maxima_def zip_map_self filter_map comp_def)

lemma all_minima_keyed:
  "map snd (all_minima (zip (map key xs) xs) None)
     = filter (\<lambda>a. \<forall>b \<in> set xs. \<not> tuple_lt (key b) (key a)) xs"
  by (simp add: all_minima_def zip_map_self filter_map comp_def)

lemma resolve_keyed:
  assumes "strategy \<noteq> Name ''NONE''"
    and "\<forall>x \<in> set objects. strategies_to_key_function reg strategy x = Inr (key x)"
  shows "resolve reg objects strategy operation None
           = Inr (map snd (operation (zip (map key objects) objects) None))"
  using assms(1) map_keys_total[OF assms(2)] by (simp add: resolve_def)

text \<open>
  C8. \<^verbatim>\<open>resolve()\<close> ranks each candidate by the tuple of the scores of the named
  strategies, in the order of the names, and yields every candidate whose tuple is
  extremal: every maximal one with the default reduction, every minimal one through the
  resolver \<^verbatim>\<open>partitions\<close>. For the candidates \<open>A\<close> (\<open>phi = 1\<close>, purview of size 2) and \<open>B\<close>
  (\<open>phi = 1\<close>, purview of size 3), the strategies \<^verbatim>\<open>["PHI", "PURVIEW_SIZE"]\<close> yield exactly
  \<open>B\<close> and \<^verbatim>\<open>"NEGATIVE_PURVIEW_SIZE"\<close> alone yields exactly \<open>A\<close>. The named strategies have
  to be registered and to return a score for the candidates.
\<close>

theorem resolve_extremal:
  assumes "(strategy = Name n \<and> n \<noteq> ''NONE'' \<and> names = [n]) \<or> strategy = Names names"
    and "\<forall>n \<in> set names. \<forall>obj \<in> set objects. \<exists>f. reg n = Some f \<and> f obj = Inr (score n obj)"
  shows "resolve reg objects strategy all_maxima None
           = Inr (filter (\<lambda>a. \<forall>b \<in> set objects.
                            \<not> tuple_lt (map (\<lambda>n. score n a) names) (map (\<lambda>n. score n b) names))
                    objects)
       \<and> partitions cfg reg objects (Some strategy) None
           = Inr (filter (\<lambda>a. \<forall>b \<in> set objects.
                            \<not> tuple_lt (map (\<lambda>n. score n b) names) (map (\<lambda>n. score n a) names))
                    objects)
       \<and> resolve phi_object_tie_resolution_strategies [candidate_A, candidate_B]
            (Names [''PHI'', ''PURVIEW_SIZE'']) all_maxima None = Inr [candidate_B]
       \<and> resolve phi_object_tie_resolution_strategies [candidate_A, candidate_B]
            (Name ''NEGATIVE_PURVIEW_SIZE'') all_maxima None = Inr [candidate_A]"
proof -
  let ?key = "\<lambda>a. map (\<lambda>n. score n a) names"
  have ne: "strategy \<noteq> Name ''NONE''"
    using assms(1) by auto
  have names: "(case strategy of Name s \<Rightarrow> [s] | Names ss \<Rightarrow> ss) = names"
    using assms(1) by auto
  have keys: "\<forall>x \<in> set objects. strategies_to_key_function reg strategy x = Inr (?key x)"
  proof
    fix x assume "x \<in> set objects"
    then have "\<forall>n \<in> set names. \<exists>f. reg n = Some f \<and> f x = Inr (score n x)"
      using assms(2) by blast
    then show "strategies_to_key_function reg strategy x = Inr (?key x)"
      unfolding strategies_to_key_function_def names by (rule scores_registered)
  qed
  have mx: "resolve reg objects strategy all_maxima None
           = Inr (filter (\<lambda>a. \<forall>b \<in> set objects. \<not> tuple_lt (?key a) (?key b)) objects)"
    unfolding resolve_keyed[OF ne keys] all_maxima_keyed ..
  have mn: "partitions cfg reg objects (Some strategy) None
           = Inr (filter (\<lambda>a. \<forall>b \<in> set objects. \<not> tuple_lt (?key b) (?key a)) objects)"
    unfolding partitions_def fallback_def option.case resolve_keyed[OF ne keys] all_minima_keyed ..
  have e1: "resolve phi_object_tie_resolution_strategies [candidate_A, candidate_B]
            (Names [''PHI'', ''PURVIEW_SIZE'']) all_maxima None = Inr [candidate_B]"
    by (simp add: resolve_def strategies_to_key_function_def
        phi_object_tie_resolution_strategies_def all_maxima_def candidate_A_def candidate_B_def)
  have e2: "resolve phi_object_tie_resolution_strategies [candidate_A, candidate_B]
            (Name ''NEGATIVE_PURVIEW_SIZE'') all_maxima None = Inr [candidate_A]"
    by (simp add: resolve_def strategies_to_key_function_def
        phi_object_tie_resolution_strategies_def all_maxima_def candidate_A_def candidate_B_def)
  show ?thesis
    using mx mn e1 e2 by blast
qed

theorem resolve_extremal_witness:
  "resolve phi_object_tie_resolution_strategies [candidate_A, candidate_B, candidate_A]
     (Names [''PHI'', ''PURVIEW_SIZE'']) all_maxima None = Inr [candidate_B]
   \<and> partitions example_config phi_object_tie_resolution_strategies
       [candidate_A, candidate_B, candidate_A]
       (Some (Names [''PHI'', ''PURVIEW_SIZE''])) None = Inr [candidate_A, candidate_A]"
proof -
  have h1: "(Names [''PHI'', ''PURVIEW_SIZE''] = Name ''PHI'' \<and> ''PHI'' \<noteq> ''NONE''
               \<and> [''PHI'', ''PURVIEW_SIZE''] = [''PHI''])
            \<or> Names [''PHI'', ''PURVIEW_SIZE''] = Names [''PHI'', ''PURVIEW_SIZE'']"
    by simp
  have h2: "\<forall>n \<in> set [''PHI'', ''PURVIEW_SIZE''].
              \<forall>obj \<in> set [candidate_A, candidate_B, candidate_A].
                \<exists>f. phi_object_tie_resolution_strategies n = Some f
                   \<and> f obj = Inr (example_score n obj)"
    by (simp add: phi_object_tie_resolution_strategies_def example_score_def)
  show ?thesis
    using resolve_extremal[OF h1 h2, of example_config]
    by (simp add: example_score_def candidate_A_def candidate_B_def)
qed

subsection \<open>Composition\<close>

text \<open>
  C9, as amended. Given an analysis, a distinction set and a relation set,
  \<^verbatim>\<open>phi_structure()\<close> returns a structure whose \<open>big_phi\<close> is the sum of the \<open>phi\<close> of
  those supplied distinctions that are congruent with the system state of the analysis,
  plus the \<^verbatim>\<open>sum_phi()\<close> of the supplied relations; it is the sum over all supplied
  distinctions when every one of them is congruent.
\<close>

theorem phi_structure_big_phi:
  "\<exists>ps. phi_structure eps cfg ext sub parts (Some s) (Some ds) (Some rels) = Inr ps
        \<and> ps_sia ps = s
        \<and> ps_distinctions ps = filter (is_congruent ext (system_state s)) ds
        \<and> ps_relations ps = rels
        \<and> big_phi ps
            = sum_list (map d_phi (filter (is_congruent ext (system_state s)) ds)) + sum_phi rels
        \<and> ((\<forall>d \<in> set ds. is_congruent ext (system_state s) d) \<longrightarrow>
             big_phi ps = sum_list (map d_phi ds) + sum_phi rels)"
  by (simp add: phi_structure_def resolve_congruence_def big_phi_def sum_phi_distinctions_def
      sum_phi_relations_def)

theorem phi_structure_big_phi_witness:
  "map_sum id big_phi
     (phi_structure example_eps example_config example_collaborators (example_subsystem 1 1) []
        (Some example_sia) (Some [congruent_distinction, congruent_distinction])
        (Some \<lparr>sum_phi = 5, num_relations = 2\<rparr>)) = Inr 7"
proof -
  have c: "\<forall>d \<in> set [congruent_distinction, congruent_distinction].
             is_congruent example_collaborators (system_state example_sia) d"
    by (simp add: example_collaborators_def example_sia_def example_state_def
        congruent_distinction_def)
  have v: "sum_list (map d_phi [congruent_distinction, congruent_distinction])
             + sum_phi \<lparr>sum_phi = 5, num_relations = 2\<rparr> = 7"
    by (simp add: congruent_distinction_def)
  from phi_structure_big_phi[of example_eps example_config example_collaborators
         "example_subsystem 1 1" "[]" example_sia
         "[congruent_distinction, congruent_distinction]" "\<lparr>sum_phi = 5, num_relations = 2\<rparr>"]
  obtain ps where ps: "phi_structure example_eps example_config example_collaborators
        (example_subsystem 1 1) [] (Some example_sia)
        (Some [congruent_distinction, congruent_distinction])
        (Some \<lparr>sum_phi = 5, num_relations = 2\<rparr>) = Inr ps"
      "(\<forall>d \<in> set [congruent_distinction, congruent_distinction].
             is_congruent example_collaborators (system_state example_sia) d) \<longrightarrow>
       big_phi ps = sum_list (map d_phi [congruent_distinction, congruent_distinction])
             + sum_phi \<lparr>sum_phi = 5, num_relations = 2\<rparr>"
    by blast
  have "big_phi ps = 7"
    using ps(2) c v by simp
  then show ?thesis
    unfolding ps(1) by simp
qed

text \<open>
  With an incongruent distinction among those supplied, \<open>big_phi\<close> is not the sum over
  the supplied distinctions: of two distinctions with \<open>phi\<close> 1 and 2, the second
  incongruent, and relations summing to 5, the structure's \<open>big_phi\<close> is 6, not 8.
\<close>

theorem phi_structure_incongruent_counterexample:
  "map_sum id big_phi
     (phi_structure example_eps example_config example_collaborators (example_subsystem 1 1) []
        (Some example_sia) (Some [congruent_distinction, incongruent_distinction])
        (Some \<lparr>sum_phi = 5, num_relations = 2\<rparr>)) = Inr 6
   \<and> sum_list (map d_phi [congruent_distinction, incongruent_distinction])
       + sum_phi \<lparr>sum_phi = 5, num_relations = 2\<rparr> = 8"
  by (simp add: phi_structure_def resolve_congruence_def big_phi_def sum_phi_distinctions_def
      sum_phi_relations_def example_collaborators_def example_sia_def example_state_def
      congruent_distinction_def incongruent_distinction_def)

end
